theory Spec2Isabelle
  imports Complex_Main
begin

section \<open>Values, errors and libraries\<close>

text \<open>
  Python values are modelled as follows: \<open>int\<close> is HOL's unbounded \<open>int\<close>, \<open>float\<close> is
  \<open>real\<close>, \<open>Optional[T]\<close> is \<open>T option\<close>.  A \<open>str\<close> is a \<open>string\<close>: its characters
  are HOL's 8-bit \<open>char\<close>, read as the code points U+0000 to U+00FF.  Exceptions are values
  of \<open>py_error\<close>, returned as \<open>Inl\<close>.
\<close>

text \<open>
  The kinds of error that the validation of a field can report, each with the name of the
  field: a value that is of the wrong type (\<open>string_type\<close>, \<open>int_type\<close>) or cannot be
  converted (\<open>int_parsing\<close>, \<open>int_from_float\<close>), and a violated constraint
  (\<open>min_length\<close>, \<open>max_length\<close>, \<open>ge\<close>, \<open>le\<close>).
\<close>

datatype constraint_kind =
  string_type | int_type | int_parsing | int_from_float
  | string_too_short | string_too_long | greater_than_equal | less_than_equal

type_synonym field_error = "string \<times> constraint_kind"

datatype py_error =
  ValidationError "field_error list"
  | IndexError
  | ValueError
  | OverflowError
  | FileNotFoundError
  | JSONDecodeError

definition bindE :: "'e + 'a \<Rightarrow> ('a \<Rightarrow> 'e + 'b) \<Rightarrow> 'e + 'b" where
  "bindE m f = (case m of Inl e \<Rightarrow> Inl e | Inr x \<Rightarrow> f x)"

text \<open>
  A \<open>datetime\<close> is the number of microseconds (the resolution of the library type) from
  0001-01-01T00:00:00 to the wall-clock reading of the value; the zone attached to a value
  takes no part in the arithmetic and is not modelled.  The library type ends at
  9999-12-31T23:59:59.999999, which is day 3652059 of the calendar, and adding a
  \<open>timedelta\<close> raises \<open>OverflowError\<close> when the sum leaves the range.
\<close>

type_synonym datetime = int

definition datetime_min :: datetime where
  "datetime_min = 0"

definition datetime_max :: datetime where
  "datetime_max = 3652059 * 86400000000 - 1"

definition datetime_add :: "datetime \<Rightarrow> int \<Rightarrow> py_error + datetime" where
  "datetime_add t d =
     (if datetime_min \<le> t + d \<and> t + d \<le> datetime_max then Inr (t + d)
      else Inl OverflowError)"

text \<open>\<open>timedelta(minutes=k)\<close>, in microseconds.\<close>

definition timedelta_minutes :: "int \<Rightarrow> int" where
  "timedelta_minutes k = k * 60000000"

text \<open>
  The code that belongs to libraries is a parameter of the model.  For the pseudo-random
  generator of the standard library there is a type \<open>'g\<close> of generator states with the
  three primitives that the methods used by the source are built on: \<open>new_Random seed\<close>
  is \<open>random.Random(seed)\<close>, \<open>randbelow n\<close> is \<open>Random._randbelow(n)\<close> and \<open>random\<close>
  is \<open>Random.random()\<close> (a float in the unit interval, here a real number).
  \<open>parse_int\<close> is the reading of a string as an integer by which the validation library
  converts a string given for an \<open>int\<close> field; \<open>None\<close> means that the string is not
  accepted.
\<close>

record 'g libraries =
  new_Random :: "int \<Rightarrow> 'g"
  randbelow :: "nat \<Rightarrow> 'g \<Rightarrow> nat \<times> 'g"
  random :: "'g \<Rightarrow> real \<times> 'g"
  parse_int :: "string \<Rightarrow> int option"


section \<open>Record schema (src/generators/models.py)\<close>

datatype FlightStatus =
  SCHEDULED | BOARDING | DEPARTED | IN_AIR | LANDED | ARRIVED | DELAYED | CANCELLED | DIVERTED

datatype FlightType = ARRIVAL | DEPARTURE

record FlightRecord =
  flight_id :: string
  flight_type :: FlightType
  airline :: string
  airline_code :: string
  flight_number :: int
  origin_airport :: string
  destination_airport :: string
  scheduled_time :: datetime
  estimated_time :: "datetime option"
  actual_time :: "datetime option"
  status :: FlightStatus
  gate :: "string option"
  terminal :: "string option"
  aircraft_type :: "string option"
  delay_minutes :: int

text \<open>
  The values that a caller may pass for a \<open>str\<close>, \<open>Optional[str]\<close> or \<open>int\<close> field:
  \<open>None\<close>, a \<open>bool\<close>, an \<open>int\<close>, a \<open>float\<close> or a \<open>str\<close>.
\<close>

datatype pyval = PyNone | PyBool bool | PyInt int | PyFloat real | PyStr string

text \<open>
  The keyword arguments of \<open>FlightRecord(...)\<close>.  The arguments for the enumerations and
  the times are taken to be of their declared type.  \<open>delay_minutes\<close> has a default, so the
  argument may be missing (\<open>None\<close> in \<open>kw_delay_minutes\<close>); for the other fields with a
  default, the default is \<open>None\<close> and is the same as passing it.
\<close>

record FlightRecord_kwargs =
  kw_flight_id :: pyval
  kw_flight_type :: FlightType
  kw_airline :: pyval
  kw_airline_code :: pyval
  kw_flight_number :: pyval
  kw_origin_airport :: pyval
  kw_destination_airport :: pyval
  kw_scheduled_time :: datetime
  kw_estimated_time :: "datetime option"
  kw_actual_time :: "datetime option"
  kw_status :: FlightStatus
  kw_gate :: pyval
  kw_terminal :: pyval
  kw_aircraft_type :: pyval
  kw_delay_minutes :: "pyval option"

text \<open>
  The conversion of an argument to the type of its field, in the library's default
  (lax) mode.  A \<open>str\<close> field takes a string only.  An \<open>int\<close> field takes an integer, a
  \<open>bool\<close> (as 0 or 1), a float without fractional part, and a string that the library
  reads as an integer.
\<close>

fun lax_str :: "pyval \<Rightarrow> constraint_kind + string" where
  "lax_str (PyStr s) = Inr s"
| "lax_str PyNone = Inl string_type"
| "lax_str (PyBool b) = Inl string_type"
| "lax_str (PyInt n) = Inl string_type"
| "lax_str (PyFloat x) = Inl string_type"

fun lax_optional_str :: "pyval \<Rightarrow> constraint_kind + string option" where
  "lax_optional_str PyNone = Inr None"
| "lax_optional_str (PyStr s) = Inr (Some s)"
| "lax_optional_str (PyBool b) = Inl string_type"
| "lax_optional_str (PyInt n) = Inl string_type"
| "lax_optional_str (PyFloat x) = Inl string_type"

fun lax_int :: "'g libraries \<Rightarrow> pyval \<Rightarrow> constraint_kind + int" where
  "lax_int lib (PyInt n) = Inr n"
| "lax_int lib (PyBool b) = Inr (if b then 1 else 0)"
| "lax_int lib (PyFloat x) =
     (if of_int \<lfloor>x\<rfloor> = x then Inr \<lfloor>x\<rfloor> else Inl int_from_float)"
| "lax_int lib (PyStr s) =
     (case parse_int lib s of Some n \<Rightarrow> Inr n | None \<Rightarrow> Inl int_parsing)"
| "lax_int lib PyNone = Inl int_type"

text \<open>\<open>Field(min_length=lo, max_length=hi)\<close> on a \<open>str\<close> field.\<close>

definition check_length :: "string \<Rightarrow> nat \<Rightarrow> nat \<Rightarrow> string \<Rightarrow> field_error list" where
  "check_length name lo hi v =
     (if length v < lo then [(name, string_too_short)]
      else if hi < length v then [(name, string_too_long)]
      else [])"

text \<open>\<open>Field(ge=lo)\<close> and \<open>Field(ge=lo, le=hi)\<close> on an \<open>int\<close> field.\<close>

definition check_ge :: "string \<Rightarrow> int \<Rightarrow> int \<Rightarrow> field_error list" where
  "check_ge name lo v = (if v < lo then [(name, greater_than_equal)] else [])"

definition check_range :: "string \<Rightarrow> int \<Rightarrow> int \<Rightarrow> int \<Rightarrow> field_error list" where
  "check_range name lo hi v =
     (if v < lo then [(name, greater_than_equal)]
      else if hi < v then [(name, less_than_equal)]
      else [])"

text \<open>
  \<open>str.upper\<close> on the characters of the model.  The letters \<open>a\<close>..\<open>z\<close> and the letters
  U+00E0..U+00FE other than the division sign U+00F7 go to the character 32 places
  before them; the sharp s U+00DF goes to the two letters \<open>SS\<close>, so the result can be
  longer than the argument.  The upper-case forms of the micro sign U+00B5 and of U+00FF
  are U+039C and U+0178, which are not characters of the model: \<open>upper_char\<close> leaves
  these two unchanged, and the model says nothing right about strings that hold them.
  All other characters up to U+00FF are their own upper-case form.
\<close>

definition upper_char :: "char \<Rightarrow> string" where
  "upper_char c =
     (let n = (of_char c :: nat) in
      if 97 \<le> n \<and> n \<le> 122 then [char_of (n - 32)]
      else if n = 223 then ''SS''
      else if 224 \<le> n \<and> n \<le> 254 \<and> n \<noteq> 247 then [char_of (n - 32)]
      else [c])"

definition upper :: "string \<Rightarrow> string" where
  "upper s = concat (map upper_char s)"

definition uppercase_airport :: "string \<Rightarrow> string" where
  "uppercase_airport v = upper v"

definition uppercase_airline_code :: "string \<Rightarrow> string" where
  "uppercase_airline_code v = upper v"

text \<open>
  The validation of one field: the argument is converted to the type of the field, the
  constraints of the declaration are checked on the converted value, and a field validator
  (\<open>after\<close>) runs on a value that passed.  The result is the value of the field or the
  errors of the field.
\<close>

definition validate_str :: "string \<Rightarrow> pyval \<Rightarrow> field_error list + string" where
  "validate_str name v =
     (case lax_str v of Inl k \<Rightarrow> Inl [(name, k)] | Inr s \<Rightarrow> Inr s)"

definition validate_optional_str :: "string \<Rightarrow> pyval \<Rightarrow> field_error list + string option" where
  "validate_optional_str name v =
     (case lax_optional_str v of Inl k \<Rightarrow> Inl [(name, k)] | Inr s \<Rightarrow> Inr s)"

definition validate_code ::
  "string \<Rightarrow> nat \<Rightarrow> nat \<Rightarrow> (string \<Rightarrow> string) \<Rightarrow> pyval \<Rightarrow> field_error list + string" where
  "validate_code name lo hi after v =
     (case lax_str v of
        Inl k \<Rightarrow> Inl [(name, k)]
      | Inr s \<Rightarrow> (case check_length name lo hi s of [] \<Rightarrow> Inr (after s) | e # es \<Rightarrow> Inl (e # es)))"

definition validate_int ::
  "'g libraries \<Rightarrow> string \<Rightarrow> (int \<Rightarrow> field_error list) \<Rightarrow> pyval \<Rightarrow> field_error list + int" where
  "validate_int lib name check v =
     (case lax_int lib v of
        Inl k \<Rightarrow> Inl [(name, k)]
      | Inr n \<Rightarrow> (case check n of [] \<Rightarrow> Inr n | e # es \<Rightarrow> Inl (e # es)))"

definition errors_of :: "'e list + 'a \<Rightarrow> 'e list" where
  "errors_of m = (case m of Inl es \<Rightarrow> es | Inr x \<Rightarrow> [])"

text \<open>
  \<open>FlightRecord(**kw)\<close>.  Every field is validated; the construction returns the record
  of the validated values when all fields passed, and raises otherwise, with the errors
  of all fields in the order of declaration.
\<close>

definition FlightRecord_init ::
  "'g libraries \<Rightarrow> FlightRecord_kwargs \<Rightarrow> py_error + FlightRecord" where
  "FlightRecord_init lib kw =
     (let v_flight_id = validate_str ''flight_id'' (kw_flight_id kw);
          v_airline = validate_str ''airline'' (kw_airline kw);
          v_airline_code =
            validate_code ''airline_code'' 2 3 uppercase_airline_code (kw_airline_code kw);
          v_flight_number =
            validate_int lib ''flight_number'' (check_range ''flight_number'' 1 9999)
              (kw_flight_number kw);
          v_origin =
            validate_code ''origin_airport'' 3 4 uppercase_airport (kw_origin_airport kw);
          v_destination =
            validate_code ''destination_airport'' 3 4 uppercase_airport
              (kw_destination_airport kw);
          v_gate = validate_optional_str ''gate'' (kw_gate kw);
          v_terminal = validate_optional_str ''terminal'' (kw_terminal kw);
          v_aircraft_type = validate_optional_str ''aircraft_type'' (kw_aircraft_type kw);
          v_delay =
            (case kw_delay_minutes kw of
               None \<Rightarrow> Inr 0
             | Some v \<Rightarrow> validate_int lib ''delay_minutes'' (check_ge ''delay_minutes'' 0) v)
      in case (v_flight_id, v_airline, v_airline_code, v_flight_number, v_origin,
               v_destination, v_gate, v_terminal, v_aircraft_type, v_delay) of
           (Inr fid, Inr al, Inr code, Inr num, Inr orig, Inr dest, Inr gt, Inr tm,
            Inr ac, Inr dl) \<Rightarrow>
             Inr \<lparr>flight_id = fid, flight_type = kw_flight_type kw, airline = al,
                  airline_code = code, flight_number = num, origin_airport = orig,
                  destination_airport = dest, scheduled_time = kw_scheduled_time kw,
                  estimated_time = kw_estimated_time kw, actual_time = kw_actual_time kw,
                  status = kw_status kw, gate = gt, terminal = tm, aircraft_type = ac,
                  delay_minutes = dl\<rparr>
         | _ \<Rightarrow>
             Inl (ValidationError
                   (errors_of v_flight_id @ errors_of v_airline @ errors_of v_airline_code
                    @ errors_of v_flight_number @ errors_of v_origin
                    @ errors_of v_destination @ errors_of v_gate @ errors_of v_terminal
                    @ errors_of v_aircraft_type @ errors_of v_delay)))"

section \<open>The random source (Python's \<open>random.Random\<close>)\<close>

text \<open>
  The methods of \<open>random.Random\<close> that the source calls, written as the library
  writes them on top of the primitives \<open>randbelow\<close> and \<open>random\<close> of the library
  record.  Each draw returns the drawn value and the next state.
\<close>

text \<open>The library's contract for \<open>_randbelow\<close>: the result lies in \<open>[0, n)\<close>.\<close>

definition randbelow_ok :: "'g libraries \<Rightarrow> bool" where
  "randbelow_ok lib \<longleftrightarrow> (\<forall>n g. 0 < n \<longrightarrow> fst (randbelow lib n g) < n)"

text \<open>\<open>xs[i]\<close> for a non-negative index.\<close>

definition getitem :: "'a list \<Rightarrow> nat \<Rightarrow> py_error + 'a" where
  "getitem xs i = (if i < length xs then Inr (xs ! i) else Inl IndexError)"

text \<open>\<open>Random.choice(seq)\<close>.\<close>

definition choice :: "'g libraries \<Rightarrow> 'a list \<Rightarrow> 'g \<Rightarrow> py_error + ('a \<times> 'g)" where
  "choice lib seq g =
     (if length seq = 0 then Inl IndexError
      else (case randbelow lib (length seq) g of
              (i, g') \<Rightarrow> bindE (getitem seq i) (\<lambda>x. Inr (x, g'))))"

text \<open>\<open>Random.randrange(start, stop)\<close> with step 1, and \<open>Random.randint(a, b)\<close>.\<close>

definition randrange :: "'g libraries \<Rightarrow> int \<Rightarrow> int \<Rightarrow> 'g \<Rightarrow> py_error + (int \<times> 'g)" where
  "randrange lib start stop g =
     (let width = stop - start in
      if 0 < width then
        (case randbelow lib (nat width) g of (k, g') \<Rightarrow> Inr (start + int k, g'))
      else Inl ValueError)"

definition randint :: "'g libraries \<Rightarrow> int \<Rightarrow> int \<Rightarrow> 'g \<Rightarrow> py_error + (int \<times> 'g)" where
  "randint lib a b g = randrange lib a (b + 1) g"

text \<open>
  \<open>Random.sample(population, k)\<close>, in the branch that the library takes for a small
  population (at most 21 items, \<open>k \<le> 5\<close>): the population is copied into a pool; draw
  number \<open>i\<close> picks a position \<open>j\<close> below \<open>n - i\<close>, takes \<open>pool[j]\<close> and moves
  \<open>pool[n - i - 1]\<close> into the vacancy.  \<open>sample_loop\<close> gets the number of draws that
  remain and the current value \<open>m\<close> of \<open>n - i\<close>.
\<close>

fun sample_loop ::
  "'g libraries \<Rightarrow> nat \<Rightarrow> nat \<Rightarrow> 'a list \<Rightarrow> 'g \<Rightarrow> py_error + ('a list \<times> 'g)" where
  "sample_loop lib 0 m pool g = Inr ([], g)"
| "sample_loop lib (Suc k) m pool g =
     (case randbelow lib m g of
        (j, g') \<Rightarrow>
          bindE (getitem pool j) (\<lambda>x.
          bindE (getitem pool (m - 1)) (\<lambda>y.
          bindE (sample_loop lib k (m - 1) (pool[j := y]) g') (\<lambda>(rest, g'').
          Inr (x # rest, g'')))))"

definition sample ::
  "'g libraries \<Rightarrow> 'a list \<Rightarrow> nat \<Rightarrow> 'g \<Rightarrow> py_error + ('a list \<times> 'g)" where
  "sample lib population k g =
     (let n = length population in
      if \<not> k \<le> n then Inl ValueError
      else sample_loop lib k n population g)"

text \<open>
  \<open>Random.choices(population, weights, k=k)\<close>: the weights are accumulated, and each
  draw looks up \<open>random() * total\<close> in the cumulative weights by bisection between
  \<open>0\<close> and \<open>n - 1\<close>.
\<close>

fun accumulate_from :: "real \<Rightarrow> real list \<Rightarrow> real list" where
  "accumulate_from s [] = []"
| "accumulate_from s (w # ws) = (s + w) # accumulate_from (s + w) ws"

definition accumulate :: "real list \<Rightarrow> real list" where
  "accumulate ws = (case ws of [] \<Rightarrow> [] | w # ws' \<Rightarrow> w # accumulate_from w ws')"

function bisect :: "real list \<Rightarrow> real \<Rightarrow> nat \<Rightarrow> nat \<Rightarrow> nat" where
  "bisect a x lo hi =
     (if lo < hi then
        (let mid = (lo + hi) div 2 in
         if x < a ! mid then bisect a x lo mid else bisect a x (mid + 1) hi)
      else lo)"
  by pat_completeness auto
termination
  by (relation "measure (\<lambda>(a, x, lo, hi). hi - lo)") auto

fun choices_loop ::
  "'g libraries \<Rightarrow> 'a list \<Rightarrow> real list \<Rightarrow> real \<Rightarrow> nat \<Rightarrow> nat \<Rightarrow> 'g
     \<Rightarrow> py_error + ('a list \<times> 'g)" where
  "choices_loop lib population cum_weights total_w hi 0 g = Inr ([], g)"
| "choices_loop lib population cum_weights total_w hi (Suc k) g =
     (case random lib g of
        (u, g') \<Rightarrow>
          bindE (getitem population (bisect cum_weights (u * total_w) 0 hi)) (\<lambda>x.
          bindE (choices_loop lib population cum_weights total_w hi k g') (\<lambda>(rest, g'').
          Inr (x # rest, g''))))"

definition choices ::
  "'g libraries \<Rightarrow> 'a list \<Rightarrow> real list \<Rightarrow> nat \<Rightarrow> 'g \<Rightarrow> py_error + ('a list \<times> 'g)" where
  "choices lib population weights k g =
     (let n = length population; cum_weights = accumulate weights in
      if length cum_weights \<noteq> n then Inl ValueError
      else if cum_weights = [] then Inl IndexError
      else (let total_w = last cum_weights in
            if total_w \<le> 0 then Inl ValueError
            else choices_loop lib population cum_weights total_w (n - 1) k g))"

section \<open>The generator (src/generators/flight_generator.py)\<close>

definition AIRLINES :: "(string \<times> string) list" where
  "AIRLINES =
     [(''United Airlines'', ''UA''), (''Delta Air Lines'', ''DL''),
      (''American Airlines'', ''AA''), (''Southwest Airlines'', ''WN''),
      (''JetBlue Airways'', ''B6''), (''Alaska Airlines'', ''AS''),
      (''Spirit Airlines'', ''NK''), (''Frontier Airlines'', ''F9''),
      (''British Airways'', ''BA''), (''Lufthansa'', ''LH''),
      (''Air France'', ''AF''), (''KLM Royal Dutch'', ''KL''),
      (''Emirates'', ''EK''), (''Qatar Airways'', ''QR''),
      (''Singapore Airlines'', ''SQ'')]"

definition AIRPORTS :: "string list" where
  "AIRPORTS =
     [''JFK'', ''LAX'', ''ORD'', ''ATL'', ''DFW'', ''DEN'', ''SFO'', ''SEA'',
      ''MIA'', ''BOS'', ''LHR'', ''CDG'', ''FRA'', ''AMS'', ''DXB'', ''SIN'',
      ''HND'', ''ICN'', ''SYD'', ''YYZ'']"

definition AIRCRAFT_TYPES :: "string list" where
  "AIRCRAFT_TYPES =
     [''B738'', ''B739'', ''B77W'', ''B789'', ''A320'', ''A321'', ''A333'',
      ''A359'', ''A388'', ''E190'', ''CRJ9'', ''B737'']"

definition TERMINALS :: "string list" where
  "TERMINALS = [''T1'', ''T2'', ''T3'', ''T4'', ''T5'']"

text \<open>The dictionary \<open>STATUS_WEIGHTS\<close>, in insertion order.\<close>

definition STATUS_WEIGHTS :: "(FlightStatus \<times> real) list" where
  "STATUS_WEIGHTS =
     [(SCHEDULED, 25 / 100), (BOARDING, 10 / 100), (DEPARTED, 10 / 100),
      (IN_AIR, 15 / 100), (LANDED, 10 / 100), (ARRIVED, 15 / 100),
      (DELAYED, 10 / 100), (CANCELLED, 3 / 100), (DIVERTED, 2 / 100)]"

text \<open>\<open>str(n)\<close> for an integer, as the f-strings of the source format it.\<close>

function str_nat :: "nat \<Rightarrow> string" where
  "str_nat n =
     (if n < 10 then [char_of (48 + n)]
      else str_nat (n div 10) @ [char_of (48 + n mod 10)])"
  by pat_completeness auto
termination
  by (relation "measure (\<lambda>n. n)") auto

definition str_int :: "int \<Rightarrow> string" where
  "str_int i = (if i < 0 then CHR ''-'' # str_nat (nat (- i)) else str_nat (nat i))"

text \<open>
  The state of a generator object.  The \<open>faker\<close> attribute is left out: no method of the
  class reads it.
\<close>

record 'g FlightDataGenerator =
  seed :: int
  rng :: 'g
  base_time :: datetime

text \<open>
  \<open>FlightDataGenerator(seed, base_time)\<close>.  \<open>now\<close> is what the clock
  (\<open>datetime.now(timezone.utc)\<close>) shows when the object is built; it is read only when no
  \<open>base_time\<close> is given.
\<close>

definition FlightDataGenerator_init ::
  "'g libraries \<Rightarrow> datetime \<Rightarrow> int \<Rightarrow> datetime option \<Rightarrow> 'g FlightDataGenerator" where
  "FlightDataGenerator_init lib now sd bt =
     \<lparr>seed = sd, rng = new_Random lib sd,
      base_time = (case bt of Some t \<Rightarrow> t | None \<Rightarrow> now)\<rparr>"

text \<open>\<open>origin, destination = ...\<close>: unpacking a list of exactly two items.\<close>

definition unpack2 :: "'a list \<Rightarrow> py_error + ('a \<times> 'a)" where
  "unpack2 xs = (case xs of [a, b] \<Rightarrow> Inr (a, b) | _ \<Rightarrow> Inl ValueError)"

text \<open>
  \<open>_make_record\<close>.  The statements run in the order of the source: each draw starts from
  the state that the previous one left, and the two additions of a \<open>timedelta\<close> stand
  where the source has them.  The result is the record and the generator with its random
  state advanced.
\<close>

definition make_record ::
  "'g libraries \<Rightarrow> 'g FlightDataGenerator
     \<Rightarrow> py_error + (FlightRecord \<times> 'g FlightDataGenerator)" where
  "make_record lib self =
     bindE (choice lib AIRLINES (rng self)) (\<lambda>((airline_name, code), g1).
     bindE (randint lib 100 9999 g1) (\<lambda>(number, g2).
     bindE (sample lib AIRPORTS 2 g2) (\<lambda>(pair, g3).
     bindE (unpack2 pair) (\<lambda>(origin, destination).
     bindE (choice lib [ARRIVAL, DEPARTURE] g3) (\<lambda>(ftype, g4).
     bindE (randint lib (- 720) 720 g4) (\<lambda>(offset_minutes, g5).
     bindE (datetime_add (base_time self) (timedelta_minutes offset_minutes)) (\<lambda>scheduled.
     bindE (choices lib (map fst STATUS_WEIGHTS) (map snd STATUS_WEIGHTS) 1 g5) (\<lambda>(sts, g6).
     bindE (getitem sts 0) (\<lambda>st.
     bindE (if st = DELAYED then randint lib 15 300 g6
            else if st = CANCELLED then Inr (0, g6)
            else if st = ARRIVED \<or> st = LANDED then choice lib [0, 0, 0, 5, 10, 15, 30] g6
            else Inr (0, g6)) (\<lambda>(delay, g7).
     bindE (if delay \<noteq> 0
            then bindE (datetime_add scheduled (timedelta_minutes delay)) (\<lambda>e. Inr (Some e))
            else Inr None) (\<lambda>estimated.
     bindE (choice lib ''ABCDEF'' g7) (\<lambda>(gate_letter, g8).
     bindE (randint lib 1 40 g8) (\<lambda>(gate_number, g9).
     bindE (choice lib TERMINALS g9) (\<lambda>(term, g10).
     bindE (choice lib AIRCRAFT_TYPES g10) (\<lambda>(aircraft, g11).
     (let actual = (if st = ARRIVED \<or> st = LANDED \<or> st = DEPARTED
                    then Some (case estimated of Some e \<Rightarrow> e | None \<Rightarrow> scheduled)
                    else None)
      in bindE (FlightRecord_init lib
            \<lparr>kw_flight_id = PyStr (code @ ''-'' @ str_int number),
             kw_flight_type = ftype,
             kw_airline = PyStr airline_name,
             kw_airline_code = PyStr code,
             kw_flight_number = PyInt number,
             kw_origin_airport = PyStr origin,
             kw_destination_airport = PyStr destination,
             kw_scheduled_time = scheduled,
             kw_estimated_time = estimated,
             kw_actual_time = actual,
             kw_status = st,
             kw_gate = PyStr (gate_letter # str_int gate_number),
             kw_terminal = PyStr term,
             kw_aircraft_type = PyStr aircraft,
             kw_delay_minutes = Some (PyInt delay)\<rparr>)
           (\<lambda>rec. Inr (rec, self\<lparr>rng := g11\<rparr>))))))))))))))))))"

text \<open>
  \<open>stream(n)\<close> is a generator function: the call runs nothing of the body and returns an
  iterator.  The iterator is modelled by the number of passes that its loop over
  \<open>range(n)\<close> has still to make, which is 0 for \<open>n \<le> 0\<close>.
\<close>

type_synonym stream_iterator = nat

definition stream :: "int \<Rightarrow> stream_iterator" where
  "stream n = nat n"

text \<open>
  \<open>next(it)\<close> on such an iterator: the loop makes one pass, which calls \<open>_make_record\<close>
  on the generator object as it is at that moment, and the record is yielded; \<open>None\<close>
  stands for \<open>StopIteration\<close>.
\<close>

definition stream_next ::
  "'g libraries \<Rightarrow> stream_iterator \<Rightarrow> 'g FlightDataGenerator
     \<Rightarrow> py_error + ((FlightRecord \<times> stream_iterator) option \<times> 'g FlightDataGenerator)" where
  "stream_next lib it self =
     (case it of
        0 \<Rightarrow> Inr (None, self)
      | Suc k \<Rightarrow> bindE (make_record lib self) (\<lambda>(rec, self'). Inr (Some (rec, k), self')))"

text \<open>
  \<open>list(it)\<close>: the iterator is run to its end with nothing else touching the generator
  object in between.  \<open>generate(n)\<close> is \<open>list(self.stream(n))\<close>; it returns the records
  with the generator as the calls left it.
\<close>

fun stream_loop ::
  "'g libraries \<Rightarrow> stream_iterator \<Rightarrow> 'g FlightDataGenerator
     \<Rightarrow> py_error + (FlightRecord list \<times> 'g FlightDataGenerator)" where
  "stream_loop lib 0 self = Inr ([], self)"
| "stream_loop lib (Suc k) self =
     bindE (make_record lib self) (\<lambda>(rec, self').
     bindE (stream_loop lib k self') (\<lambda>(rest, self'').
     Inr (rec # rest, self'')))"

definition generate ::
  "'g libraries \<Rightarrow> int \<Rightarrow> 'g FlightDataGenerator
     \<Rightarrow> py_error + (FlightRecord list \<times> 'g FlightDataGenerator)" where
  "generate lib n self = stream_loop lib (stream n) self"

text \<open>
  The generator object after \<open>k\<close> calls of \<open>_make_record\<close>, where all of them returned.
\<close>

fun state_after ::
  "'g libraries \<Rightarrow> nat \<Rightarrow> 'g FlightDataGenerator \<Rightarrow> py_error + 'g FlightDataGenerator" where
  "state_after lib 0 self = Inr self"
| "state_after lib (Suc k) self =
     bindE (make_record lib self) (\<lambda>(rec, self'). state_after lib k self')"

section \<open>Properties of a record, and concrete inputs\<close>

text \<open>
  The three groups of properties that the generator is to establish for every record:
  the schema invariants, the coupling of status and delay, and the rules for the presence
  of the estimated and the actual time.
\<close>

definition schema_invariants :: "FlightRecord \<Rightarrow> bool" where
  "schema_invariants r \<longleftrightarrow>
     origin_airport r \<noteq> destination_airport r
     \<and> upper (airline_code r) = airline_code r
     \<and> upper (origin_airport r) = origin_airport r
     \<and> upper (destination_airport r) = destination_airport r
     \<and> 1 \<le> flight_number r \<and> flight_number r \<le> 9999
     \<and> 0 \<le> delay_minutes r"

definition status_delay_coupling :: "FlightRecord \<Rightarrow> bool" where
  "status_delay_coupling r \<longleftrightarrow>
     (status r = CANCELLED \<longrightarrow> delay_minutes r = 0)
     \<and> (status r = DELAYED \<longrightarrow> 0 < delay_minutes r)"

definition time_presence :: "FlightRecord \<Rightarrow> bool" where
  "time_presence r \<longleftrightarrow>
     (estimated_time r \<noteq> None \<longleftrightarrow> 0 < delay_minutes r)
     \<and> (actual_time r \<noteq> None \<longleftrightarrow> status r \<in> {ARRIVED, LANDED, DEPARTED})
     \<and> (status r = DEPARTED \<longrightarrow>
          delay_minutes r = 0 \<and> estimated_time r = None
          \<and> actual_time r = Some (scheduled_time r))"

text \<open>
  A base time from which no addition of \<open>_make_record\<close> can leave the range of the
  library type: the scheduled time is at most 720 minutes before or after the base time,
  and the estimated time at most 300 minutes after the scheduled time.
\<close>

definition base_time_safe :: "datetime \<Rightarrow> bool" where
  "base_time_safe t \<longleftrightarrow>
     datetime_min \<le> t + timedelta_minutes (- 720)
     \<and> t + timedelta_minutes 720 + timedelta_minutes 300 \<le> datetime_max"

text \<open>
  Concrete libraries, for running the program: a linear congruential generator on the
  numbers below 65537 as the random source, where \<open>randbelow n\<close> reduces the next state
  modulo \<open>n\<close> and \<open>random\<close> divides it by the modulus, and a reader of integers that
  accepts the non-empty strings of decimal digits.
\<close>

definition lcg_next :: "nat \<Rightarrow> nat" where
  "lcg_next s = (75 * s + 74) mod 65537"

definition is_digit :: "char \<Rightarrow> bool" where
  "is_digit c \<longleftrightarrow> 48 \<le> (of_char c :: nat) \<and> (of_char c :: nat) \<le> 57"

definition digits_int :: "string \<Rightarrow> int option" where
  "digits_int s =
     (if s \<noteq> [] \<and> list_all is_digit s
      then Some (foldl (\<lambda>a c. 10 * a + (of_char c - 48)) 0 s)
      else None)"

definition lcg_lib :: "nat libraries" where
  "lcg_lib =
     \<lparr>new_Random = (\<lambda>sd. nat \<bar>sd\<bar> mod 65537),
      randbelow = (\<lambda>n s. (lcg_next s mod n, lcg_next s)),
      random = (\<lambda>s. (real (lcg_next s) / 65537, lcg_next s)),
      parse_int = digits_int\<rparr>"

text \<open>
  A base time inside the range of the library type: 2026-06-15T12:00:00, which is 739782
  days and 12 hours after the origin.
\<close>

definition demo_time :: datetime where
  "demo_time = 739781 * 86400000000 + 43200000000"











section \<open>NDJSON streaming (src/streaming/json_stream.py)\<close>

text \<open>
  The JSON encoder of the record class (\<open>model_dump_json\<close>) and the JSON decoder
  (\<open>json.loads\<close>) belong to libraries and are parameters of the model.  A decoded value
  is a \<open>json\<close>; a dictionary is the list of its items.
\<close>

datatype json =
  JNull | JBool bool | JInt int | JFloat real | JStr string
  | JArr "json list" | JObj "(string \<times> json) list"

record json_lib =
  model_dump_json :: "FlightRecord \<Rightarrow> string"
  json_loads :: "string \<Rightarrow> py_error + json"

text \<open>\<open>d[key]\<close> on a decoded value; \<open>None\<close> when it is not a dictionary with that key.\<close>

definition dict_get :: "json \<Rightarrow> string \<Rightarrow> json option" where
  "dict_get d key = (case d of JObj items \<Rightarrow> map_of items key | _ \<Rightarrow> None)"

definition LF :: char where
  "LF = CHR 0x0A"

definition CR :: char where
  "CR = CHR 0x0D"

definition record_to_json_line :: "json_lib \<Rightarrow> FlightRecord \<Rightarrow> string" where
  "record_to_json_line lib record' = model_dump_json lib record'"

text \<open>\<open>sep.join(xs)\<close>.\<close>

fun join :: "string \<Rightarrow> string list \<Rightarrow> string" where
  "join sep [] = []"
| "join sep [x] = x"
| "join sep (x # y # ys) = x @ sep @ join sep (y # ys)"

text \<open>\<open>records_to_ndjson\<close>: the loop appends one line per record to \<open>lines\<close>.\<close>

fun collect_lines :: "json_lib \<Rightarrow> FlightRecord list \<Rightarrow> string list \<Rightarrow> string list" where
  "collect_lines lib [] lines = lines"
| "collect_lines lib (r # records) lines =
     collect_lines lib records (lines @ [record_to_json_line lib r])"

definition records_to_ndjson :: "json_lib \<Rightarrow> FlightRecord list \<Rightarrow> string" where
  "records_to_ndjson lib records =
     (let lines = collect_lines lib records [] in
      if lines \<noteq> [] then join [LF] lines @ [LF] else [])"

text \<open>
  Files.  A file system maps a path to the text of the file; directories, encodings and
  I/O failures are outside the model, and a line end is written as the single character
  \<open>LF\<close>.  Opening a file for writing starts from the empty text.
\<close>

type_synonym filesystem = "string \<rightharpoonup> string"

text \<open>
  \<open>stream_to_file\<close>: the loop writes the line and a newline for each record and counts
  the records; the result is the count and the file system with the new file.
\<close>

fun write_records :: "json_lib \<Rightarrow> FlightRecord list \<Rightarrow> string \<Rightarrow> int \<Rightarrow> string \<times> int" where
  "write_records lib [] fh count = (fh, count)"
| "write_records lib (r # records) fh count =
     write_records lib records ((fh @ record_to_json_line lib r) @ [LF]) (count + 1)"

definition stream_to_file ::
  "json_lib \<Rightarrow> FlightRecord list \<Rightarrow> string \<Rightarrow> filesystem \<Rightarrow> int \<times> filesystem" where
  "stream_to_file lib records path fs =
     (case write_records lib records [] 0 of
        (content, count) \<Rightarrow> (count, fs(path \<mapsto> content)))"

text \<open>
  Reading a text file line by line.  In text mode every \<open>CR LF\<close> and every lone \<open>CR\<close> is
  read as \<open>LF\<close>; a line ends after each \<open>LF\<close>, which it keeps, and a last line without
  \<open>LF\<close> counts when it is not empty.
\<close>

fun universal_newlines :: "string \<Rightarrow> string" where
  "universal_newlines [] = []"
| "universal_newlines [c] = (if c = CR then [LF] else [c])"
| "universal_newlines (c # d # ds) =
     (if c = CR \<and> d = LF then LF # universal_newlines ds
      else if c = CR then LF # universal_newlines (d # ds)
      else c # universal_newlines (d # ds))"

fun split_lines :: "string \<Rightarrow> string \<Rightarrow> string list" where
  "split_lines cur [] = (if cur = [] then [] else [cur])"
| "split_lines cur (c # cs) =
     (if c = LF then (cur @ [c]) # split_lines [] cs else split_lines (cur @ [c]) cs)"

definition file_lines :: "string \<Rightarrow> string list" where
  "file_lines content = split_lines [] (universal_newlines content)"

text \<open>
  \<open>str.strip()\<close> removes white space at both ends; \<open>is_space\<close> is \<open>str.isspace\<close> on the
  characters of the model.
\<close>

definition is_space :: "char \<Rightarrow> bool" where
  "is_space c \<longleftrightarrow>
     (let n = (of_char c :: nat) in
      (9 \<le> n \<and> n \<le> 13) \<or> (28 \<le> n \<and> n \<le> 32) \<or> n = 133 \<or> n = 160)"

definition strip :: "string \<Rightarrow> string" where
  "strip s = rev (dropWhile is_space (rev (dropWhile is_space s)))"

text \<open>\<open>read_ndjson_file\<close>: every line that is not blank is decoded and appended.\<close>

fun read_lines :: "json_lib \<Rightarrow> string list \<Rightarrow> json list \<Rightarrow> py_error + json list" where
  "read_lines lib [] records = Inr records"
| "read_lines lib (line # lines) records =
     (let line' = strip line in
      if line' \<noteq> [] then
        bindE (json_loads lib line') (\<lambda>v. read_lines lib lines (records @ [v]))
      else read_lines lib lines records)"

definition read_ndjson_file ::
  "json_lib \<Rightarrow> string \<Rightarrow> filesystem \<Rightarrow> py_error + json list" where
  "read_ndjson_file lib path fs =
     (case fs path of
        None \<Rightarrow> Inl FileNotFoundError
      | Some content \<Rightarrow> read_lines lib (file_lines content) [])"

text \<open>\<open>count_lines\<close>: the number of lines that are not blank.\<close>

fun count_loop :: "string list \<Rightarrow> int \<Rightarrow> int" where
  "count_loop [] count = count"
| "count_loop (line # lines) count =
     (if strip line \<noteq> [] then count_loop lines (count + 1) else count_loop lines count)"

definition count_lines :: "string \<Rightarrow> filesystem \<Rightarrow> py_error + int" where
  "count_lines path fs =
     (case fs path of
        None \<Rightarrow> Inl FileNotFoundError
      | Some content \<Rightarrow> Inr (count_loop (file_lines content) 0))"

text \<open>
  What the streaming functions need from the encoder: a line is not empty, has no white
  space at either end and contains no line break (it is one JSON object).
\<close>

definition json_line_ok :: "string \<Rightarrow> bool" where
  "json_line_ok s \<longleftrightarrow>
     s \<noteq> [] \<and> \<not> is_space (hd s) \<and> \<not> is_space (last s) \<and> LF \<notin> set s \<and> CR \<notin> set s"

text \<open>
  What the round trip needs from encoder and decoder together: the line of a record
  decodes to a dictionary that holds the record's \<open>flight_id\<close>, \<open>airline_code\<close> and
  \<open>flight_number\<close> under their names.
\<close>

definition decodes_to_record :: "json_lib \<Rightarrow> FlightRecord \<Rightarrow> bool" where
  "decodes_to_record lib r \<longleftrightarrow>
     json_line_ok (model_dump_json lib r)
     \<and> (\<exists>d. json_loads lib (model_dump_json lib r) = Inr d
            \<and> dict_get d ''flight_id'' = Some (JStr (flight_id r))
            \<and> dict_get d ''airline_code'' = Some (JStr (airline_code r))
            \<and> dict_get d ''flight_number'' = Some (JInt (flight_number r)))"

section \<open>A concrete encoder and decoder\<close>

text \<open>
  A small JSON encoder for the three fields that the round trip compares, and a decoder
  for objects whose values are strings without escapes or non-negative integers.  They
  stand in for the library functions where a theorem is run on concrete records.
\<close>

definition DQ :: char where
  "DQ = CHR 0x22"

definition quoted :: "string \<Rightarrow> string" where
  "quoted s = DQ # s @ [DQ]"

definition demo_dump :: "FlightRecord \<Rightarrow> string" where
  "demo_dump r =
     ''{'' @ quoted ''flight_id'' @ '':'' @ quoted (flight_id r)
     @ '','' @ quoted ''airline_code'' @ '':'' @ quoted (airline_code r)
     @ '','' @ quoted ''flight_number'' @ '':'' @ str_int (flight_number r) @ ''}''"

fun take_string :: "string \<Rightarrow> string \<Rightarrow> (string \<times> string) option" where
  "take_string acc [] = None"
| "take_string acc (c # cs) = (if c = DQ then Some (acc, cs) else take_string (acc @ [c]) cs)"

fun take_int :: "int \<Rightarrow> string \<Rightarrow> int \<times> string" where
  "take_int acc [] = (acc, [])"
| "take_int acc (c # cs) =
     (if is_digit c then take_int (10 * acc + int ((of_char c :: nat) - 48)) cs
      else (acc, c # cs))"

definition parse_value :: "string \<Rightarrow> (json \<times> string) option" where
  "parse_value s =
     (case s of
        [] \<Rightarrow> None
      | c # cs \<Rightarrow>
          if c = DQ then map_option (\<lambda>(v, rest). (JStr v, rest)) (take_string [] cs)
          else if is_digit c then Some (case take_int 0 s of (n, rest) \<Rightarrow> (JInt n, rest))
          else None)"

fun parse_members :: "nat \<Rightarrow> string \<Rightarrow> (string \<times> json) list option" where
  "parse_members 0 s = None"
| "parse_members (Suc n) s =
     (case s of
        [] \<Rightarrow> None
      | c # cs \<Rightarrow>
          if c \<noteq> DQ then None
          else (case take_string [] cs of
                  None \<Rightarrow> None
                | Some (key, rest) \<Rightarrow>
                    (case rest of
                       [] \<Rightarrow> None
                     | c2 # rest2 \<Rightarrow>
                         if c2 \<noteq> CHR '':'' then None
                         else (case parse_value rest2 of
                                 None \<Rightarrow> None
                               | Some (v, rest3) \<Rightarrow>
                                   if rest3 = ''}'' then Some [(key, v)]
                                   else (case rest3 of
                                           [] \<Rightarrow> None
                                         | c3 # rest4 \<Rightarrow>
                                             if c3 = CHR '',''
                                             then map_option ((#) (key, v))
                                                    (parse_members n rest4)
                                             else None)))))"

definition demo_loads :: "string \<Rightarrow> py_error + json" where
  "demo_loads s =
     (case s of
        [] \<Rightarrow> Inl JSONDecodeError
      | c # cs \<Rightarrow>
          if c = CHR ''{'' then
            (case parse_members (length cs) cs of
               None \<Rightarrow> Inl JSONDecodeError
             | Some items \<Rightarrow> Inr (JObj items))
          else Inl JSONDecodeError)"

definition demo_json_lib :: json_lib where
  "demo_json_lib = \<lparr>model_dump_json = demo_dump, json_loads = demo_loads\<rparr>"

text \<open>Two records: what the generator returns on \<open>lcg_lib\<close> for the seeds 28 and 78 with
  the base time \<open>demo_time\<close>.\<close>

definition demo_records :: "FlightRecord list" where
  "demo_records =
     [\<lparr>flight_id = ''SQ-2450'', flight_type = ARRIVAL,
        airline = ''Singapore Airlines'', airline_code = ''SQ'',
        flight_number = 2450, origin_airport = ''FRA'',
        destination_airport = ''MIA'', scheduled_time = 63917108520000000,
        estimated_time = Some 63917125980000000, actual_time = None,
        status = DELAYED, gate = Some ''A25'', terminal = Some ''T2'',
        aircraft_type = Some ''A359'', delay_minutes = 291\<rparr>,
      \<lparr>flight_id = ''SQ-1752'', flight_type = ARRIVAL,
        airline = ''Singapore Airlines'', airline_code = ''SQ'',
        flight_number = 1752, origin_airport = ''MIA'',
        destination_airport = ''ICN'', scheduled_time = 63917132880000000,
        estimated_time = None, actual_time = None, status = CANCELLED,
        gate = Some ''B17'', terminal = Some ''T4'',
        aircraft_type = Some ''B737'', delay_minutes = 0\<rparr>]"

section \<open>Properties of the draws and of a single record\<close>

declare bisect.simps [simp del]
declare str_nat.simps [simp del]

lemma bindE_Inr [simp]: "bindE (Inr x) f = f x"
  by (simp add: bindE_def)

lemma bindE_Inl [simp]: "bindE (Inl e) f = Inl e"
  by (simp add: bindE_def)

lemma bindE_eq_Inr_iff: "bindE m f = Inr y \<longleftrightarrow> (\<exists>x. m = Inr x \<and> f x = Inr y)"
  by (cases m) simp_all

lemma bindE_InrE:
  assumes "bindE m f = Inr y"
  obtains x where "m = Inr x" and "f x = Inr y"
  using assms by (auto simp: bindE_eq_Inr_iff)

lemma getitem_InrD: "getitem xs i = Inr x \<Longrightarrow> i < length xs \<and> x = xs ! i"
  by (auto simp: getitem_def split: if_splits)

lemma getitem_in_range: "i < length xs \<Longrightarrow> getitem xs i = Inr (xs ! i)"
  by (simp add: getitem_def)

lemma choice_InrD:
  assumes "choice lib xs g = Inr (x, g')"
  shows "x \<in> set xs" and "g' = snd (randbelow lib (length xs) g)"
  using assms
  by (auto simp: choice_def bindE_eq_Inr_iff dest!: getitem_InrD split: if_splits prod.splits)

lemma choice_total:
  assumes "randbelow_ok lib" and "xs \<noteq> []"
  shows "\<exists>x g'. choice lib xs g = Inr (x, g') \<and> x \<in> set xs"
proof -
  obtain i g' where d: "randbelow lib (length xs) g = (i, g')"
    by (cases "randbelow lib (length xs) g")
  from assms have "fst (randbelow lib (length xs) g) < length xs"
    by (simp add: randbelow_ok_def)
  with d have "i < length xs" by simp
  with d assms(2) show ?thesis
    by (simp add: choice_def getitem_in_range)
qed

lemma randint_lower: "randint lib a b g = Inr (v, g') \<Longrightarrow> a \<le> v"
  by (auto simp: randint_def randrange_def Let_def split: if_splits prod.splits)

lemma randint_upper:
  assumes "randbelow_ok lib" and "randint lib a b g = Inr (v, g')"
  shows "v \<le> b"
proof -
  from assms(2) have w: "0 < b + 1 - a"
    by (auto simp: randint_def randrange_def Let_def split: if_splits)
  with assms(1) have "fst (randbelow lib (nat (b + 1 - a)) g) < nat (b + 1 - a)"
    by (simp add: randbelow_ok_def)
  with assms(2) w show ?thesis
    by (auto simp: randint_def randrange_def Let_def split: if_splits prod.splits)
qed

lemma randint_total:
  assumes "a \<le> b"
  shows "\<exists>v g'. randint lib a b g = Inr (v, g')"
  using assms by (auto simp: randint_def randrange_def Let_def split: prod.splits)

lemma randbelow_okD:
  assumes "randbelow_ok lib" and "0 < n" and "randbelow lib n g = (j, g')"
  shows "j < n"
proof -
  from assms(1,2) have "fst (randbelow lib n g) < n"
    unfolding randbelow_ok_def by blast
  with assms(3) show ?thesis by simp
qed

lemma sample_two:
  assumes ok: "randbelow_ok lib" and d: "distinct xs" and n: "2 \<le> length xs"
  shows "\<exists>a b g'. sample lib xs 2 g = Inr ([a, b], g') \<and> a \<in> set xs \<and> b \<in> set xs \<and> a \<noteq> b"
proof -
  obtain j0 g0 where r0: "randbelow lib (length xs) g = (j0, g0)"
    by (cases "randbelow lib (length xs) g")
  obtain j1 g1 where r1: "randbelow lib (length xs - 1) g0 = (j1, g1)"
    by (cases "randbelow lib (length xs - 1) g0")
  from n have p0: "0 < length xs" and p1: "0 < length xs - 1" by arith+
  have j0: "j0 < length xs"
    by (rule randbelow_okD [OF ok p0 r0])
  have j1: "j1 < length xs - 1"
    by (rule randbelow_okD [OF ok p1 r1])
  let ?b = "(xs[j0 := xs ! (length xs - 1)]) ! j1"
  have run: "sample lib xs 2 g = Inr ([xs ! j0, ?b], g1)"
  proof -
    from n have ne: "length xs - Suc 0 < length xs" by arith
    show ?thesis
      using n j0 j1 r0 r1 ne by (simp add: sample_def numeral_2_eq_2 getitem_in_range)
  qed
  have b: "?b = (if j1 = j0 then xs ! (length xs - 1) else xs ! j1)"
    using j0 j1 by (simp add: nth_list_update)
  have "?b \<in> set xs"
    using b j1 n by auto
  moreover have "xs ! j0 \<noteq> ?b"
    using b d j0 j1 by (auto simp: nth_eq_iff_index_eq)
  moreover have "xs ! j0 \<in> set xs"
    using j0 by simp
  ultimately show ?thesis
    using run by blast
qed

lemma length_accumulate_from: "length (accumulate_from s ws) = length ws"
  by (induction ws arbitrary: s) simp_all

lemma length_accumulate: "length (accumulate ws) = length ws"
  by (simp add: accumulate_def length_accumulate_from split: list.splits)

lemma bisect_le_hi: "lo \<le> hi \<Longrightarrow> bisect a x lo hi \<le> hi"
proof (induction a x lo hi rule: bisect.induct)
  case (1 a x lo hi)
  show ?case
  proof (cases "lo < hi")
    case True
    then have "lo \<le> (lo + hi) div 2" and "(lo + hi) div 2 + 1 \<le> hi"
      by simp_all
    with 1 True show ?thesis
      by (subst bisect.simps) (auto simp: Let_def)
  next
    case False
    with 1 show ?thesis
      by (subst bisect.simps) simp
  qed
qed

lemma choices_one_InrD:
  assumes "choices lib pop ws (Suc 0) g = Inr (ys, g')"
  shows "\<exists>y. ys = [y] \<and> y \<in> set pop"
  using assms
  by (auto simp: choices_def Let_def bindE_eq_Inr_iff
      dest!: getitem_InrD split: if_splits prod.splits)

lemma choices_one_total:
  assumes "length ws = length pop" and "pop \<noteq> []" and "0 < last (accumulate ws)"
  shows "\<exists>y g'. choices lib pop ws (Suc 0) g = Inr ([y], g')"
proof -
  obtain u g' where r: "random lib g = (u, g')"
    by (cases "random lib g")
  have "bisect (accumulate ws) (u * last (accumulate ws)) 0 (length pop - 1) \<le> length pop - 1"
    by (rule bisect_le_hi) simp
  with assms(2) have "bisect (accumulate ws) (u * last (accumulate ws)) 0 (length pop - 1) < length pop"
    by (cases pop) simp_all
  moreover have "accumulate ws \<noteq> []"
    using assms(1,2) length_accumulate [of ws] by auto
  ultimately show ?thesis
    using assms r by (simp add: choices_def Let_def length_accumulate getitem_in_range)
qed

lemma status_weights_total: "last (accumulate (map snd STATUS_WEIGHTS)) = 1"
  by (simp add: STATUS_WEIGHTS_def accumulate_def)

lemma distinct_AIRPORTS: "distinct AIRPORTS"
  by (simp add: AIRPORTS_def)

lemma upper_AIRPORTS: "a \<in> set AIRPORTS \<Longrightarrow> upper a = a \<and> length a = 3"
  by (auto simp: AIRPORTS_def upper_def upper_char_def)

lemma upper_AIRLINES: "(nm, c) \<in> set AIRLINES \<Longrightarrow> upper c = c \<and> length c = 2"
  by (auto simp: AIRLINES_def upper_def upper_char_def)

lemma unpack2_InrD: "unpack2 xs = Inr (a, b) \<Longrightarrow> xs = [a, b]"
  by (auto simp: unpack2_def split: list.splits)

lemma validate_str_Inr_iff: "validate_str name v = Inr s \<longleftrightarrow> v = PyStr s"
  by (cases v) (simp_all add: validate_str_def)

lemma validate_optional_str_Inr_iff:
  "validate_optional_str name v = Inr x \<longleftrightarrow>
     (v = PyNone \<and> x = None) \<or> (\<exists>s. v = PyStr s \<and> x = Some s)"
  by (cases v) (auto simp: validate_optional_str_def)

lemma check_length_Nil_iff: "check_length name lo hi v = [] \<longleftrightarrow> lo \<le> length v \<and> length v \<le> hi"
  by (auto simp: check_length_def)

lemma check_range_Nil_iff: "check_range name lo hi v = [] \<longleftrightarrow> lo \<le> v \<and> v \<le> hi"
  by (auto simp: check_range_def)

lemma check_ge_Nil_iff: "check_ge name lo v = [] \<longleftrightarrow> lo \<le> v"
  by (auto simp: check_ge_def)

lemma validate_code_Inr_iff:
  "validate_code name lo hi after v = Inr y \<longleftrightarrow>
     (\<exists>s. v = PyStr s \<and> lo \<le> length s \<and> length s \<le> hi \<and> y = after s)"
proof (cases v)
  case (PyStr s)
  show ?thesis
  proof (cases "check_length name lo hi s")
    case Nil
    with PyStr check_length_Nil_iff [of name lo hi s] show ?thesis
      by (auto simp: validate_code_def)
  next
    case (Cons e es)
    with PyStr check_length_Nil_iff [of name lo hi s] show ?thesis
      by (auto simp: validate_code_def)
  qed
qed (simp_all add: validate_code_def)

lemma validate_int_Inr_iff:
  "validate_int lib name check v = Inr n \<longleftrightarrow> lax_int lib v = Inr n \<and> check n = []"
proof (cases "lax_int lib v")
  case (Inl k)
  then show ?thesis by (simp add: validate_int_def)
next
  case (Inr m)
  then show ?thesis
    by (cases "check m") (auto simp: validate_int_def)
qed





lemma errors_of_Inl [simp]: "errors_of (Inl es) = es"
  by (simp add: errors_of_def)

lemma errors_of_Inr [simp]: "errors_of (Inr x) = []"
  by (simp add: errors_of_def)

lemma FlightRecord_init_Inr_iff:
  "FlightRecord_init lib kw = Inr r \<longleftrightarrow>
     (\<exists>fid al code num orig dest gt tm ac dl.
        validate_str ''flight_id'' (kw_flight_id kw) = Inr fid
        \<and> validate_str ''airline'' (kw_airline kw) = Inr al
        \<and> validate_code ''airline_code'' 2 3 uppercase_airline_code (kw_airline_code kw) = Inr code
        \<and> validate_int lib ''flight_number'' (check_range ''flight_number'' 1 9999)
              (kw_flight_number kw) = Inr num
        \<and> validate_code ''origin_airport'' 3 4 uppercase_airport (kw_origin_airport kw) = Inr orig
        \<and> validate_code ''destination_airport'' 3 4 uppercase_airport
              (kw_destination_airport kw) = Inr dest
        \<and> validate_optional_str ''gate'' (kw_gate kw) = Inr gt
        \<and> validate_optional_str ''terminal'' (kw_terminal kw) = Inr tm
        \<and> validate_optional_str ''aircraft_type'' (kw_aircraft_type kw) = Inr ac
        \<and> (case kw_delay_minutes kw of
               None \<Rightarrow> Inr 0
             | Some v \<Rightarrow> validate_int lib ''delay_minutes'' (check_ge ''delay_minutes'' 0) v)
            = Inr dl
        \<and> r = \<lparr>flight_id = fid, flight_type = kw_flight_type kw, airline = al,
                  airline_code = code, flight_number = num, origin_airport = orig,
                  destination_airport = dest, scheduled_time = kw_scheduled_time kw,
                  estimated_time = kw_estimated_time kw, actual_time = kw_actual_time kw,
                  status = kw_status kw, gate = gt, terminal = tm, aircraft_type = ac,
                  delay_minutes = dl\<rparr>)"
  unfolding FlightRecord_init_def Let_def
  by (auto split: sum.splits)

lemma make_record_InrE:
  assumes "make_record lib self = Inr (r, self')"
  obtains airline_name code g1 number g2 origin destination g3 ftype g4 offset_minutes g5
    scheduled st g6 delay g7 estimated gate_letter g8 gate_number g9 trm g10 aircraft g11
  where "choice lib AIRLINES (rng self) = Inr ((airline_name, code), g1)"
    and "randint lib 100 9999 g1 = Inr (number, g2)"
    and "sample lib AIRPORTS 2 g2 = Inr ([origin, destination], g3)"
    and "choice lib [ARRIVAL, DEPARTURE] g3 = Inr (ftype, g4)"
    and "randint lib (- 720) 720 g4 = Inr (offset_minutes, g5)"
    and "datetime_add (base_time self) (timedelta_minutes offset_minutes) = Inr scheduled"
    and "choices lib (map fst STATUS_WEIGHTS) (map snd STATUS_WEIGHTS) 1 g5 = Inr ([st], g6)"
    and "(if st = DELAYED then randint lib 15 300 g6
          else if st = CANCELLED then Inr (0, g6)
          else if st = ARRIVED \<or> st = LANDED then choice lib [0, 0, 0, 5, 10, 15, 30] g6
          else Inr (0, g6)) = Inr (delay, g7)"
    and "(if delay \<noteq> 0
          then bindE (datetime_add scheduled (timedelta_minutes delay)) (\<lambda>e. Inr (Some e))
          else Inr None) = Inr estimated"
    and "choice lib ''ABCDEF'' g7 = Inr (gate_letter, g8)"
    and "randint lib 1 40 g8 = Inr (gate_number, g9)"
    and "choice lib TERMINALS g9 = Inr (trm, g10)"
    and "choice lib AIRCRAFT_TYPES g10 = Inr (aircraft, g11)"
    and "self' = self\<lparr>rng := g11\<rparr>"
    and "FlightRecord_init lib
            \<lparr>kw_flight_id = PyStr (code @ ''-'' @ str_int number),
             kw_flight_type = ftype,
             kw_airline = PyStr airline_name,
             kw_airline_code = PyStr code,
             kw_flight_number = PyInt number,
             kw_origin_airport = PyStr origin,
             kw_destination_airport = PyStr destination,
             kw_scheduled_time = scheduled,
             kw_estimated_time = estimated,
             kw_actual_time =
               (if st = ARRIVED \<or> st = LANDED \<or> st = DEPARTED
                then Some (case estimated of Some e \<Rightarrow> e | None \<Rightarrow> scheduled)
                else None),
             kw_status = st,
             kw_gate = PyStr (gate_letter # str_int gate_number),
             kw_terminal = PyStr trm,
             kw_aircraft_type = PyStr aircraft,
             kw_delay_minutes = Some (PyInt delay)\<rparr> = Inr r"
proof -
  show ?thesis
    apply (insert assms)
    unfolding make_record_def
    apply ((erule bindE_InrE, clarsimp simp: Let_def)+)
    apply (drule unpack2_InrD)
    apply ((erule bindE_InrE, clarsimp simp: Let_def)+)
    apply (frule choices_one_InrD)
    apply (clarsimp simp: getitem_def)
    apply (erule bindE_InrE, clarsimp simp: Let_def)
    apply (erule bindE_InrE)
    apply ((erule bindE_InrE, clarsimp simp: Let_def)+)
    apply (rule that)
    apply simp_all
    done
qed

lemma datetime_add_InrD:
  "datetime_add t d = Inr u \<Longrightarrow> u = t + d \<and> datetime_min \<le> u \<and> u \<le> datetime_max"
  by (auto simp: datetime_add_def split: if_splits)

lemma FlightRecord_init_typed:
  "FlightRecord_init lib
     \<lparr>kw_flight_id = PyStr fid, kw_flight_type = ft, kw_airline = PyStr al,
      kw_airline_code = PyStr code, kw_flight_number = PyInt num,
      kw_origin_airport = PyStr orig, kw_destination_airport = PyStr dest,
      kw_scheduled_time = sched, kw_estimated_time = est, kw_actual_time = act,
      kw_status = st, kw_gate = PyStr gt, kw_terminal = PyStr tm,
      kw_aircraft_type = PyStr ac, kw_delay_minutes = Some (PyInt dl)\<rparr> = Inr r
   \<longleftrightarrow>
     2 \<le> length code \<and> length code \<le> 3 \<and> 1 \<le> num \<and> num \<le> 9999
     \<and> 3 \<le> length orig \<and> length orig \<le> 4 \<and> 3 \<le> length dest \<and> length dest \<le> 4
     \<and> 0 \<le> dl
     \<and> r = \<lparr>flight_id = fid, flight_type = ft, airline = al, airline_code = upper code,
              flight_number = num, origin_airport = upper orig,
              destination_airport = upper dest, scheduled_time = sched,
              estimated_time = est, actual_time = act, status = st, gate = Some gt,
              terminal = Some tm, aircraft_type = Some ac, delay_minutes = dl\<rparr>"
  unfolding FlightRecord_init_Inr_iff
  by (simp add: validate_str_Inr_iff validate_optional_str_Inr_iff validate_code_Inr_iff
      validate_int_Inr_iff check_range_Nil_iff check_ge_Nil_iff uppercase_airport_def
      uppercase_airline_code_def)

lemma make_record_fieldsE:
  assumes "make_record lib self = Inr (r, self')"
  obtains airline_name code g1 number g2 origin destination g3 offset_minutes st g6 delay g7
  where "choice lib AIRLINES (rng self) = Inr ((airline_name, code), g1)"
    and "randint lib 100 9999 g1 = Inr (number, g2)"
    and "sample lib AIRPORTS 2 g2 = Inr ([origin, destination], g3)"
    and "(if st = DELAYED then randint lib 15 300 g6
          else if st = CANCELLED then Inr (0, g6)
          else if st = ARRIVED \<or> st = LANDED then choice lib [0, 0, 0, 5, 10, 15, 30] g6
          else Inr (0, g6)) = Inr (delay, g7)"
    and "airline_code r = upper code"
    and "flight_number r = number"
    and "origin_airport r = upper origin"
    and "destination_airport r = upper destination"
    and "status r = st"
    and "delay_minutes r = delay"
    and "scheduled_time r = base_time self + timedelta_minutes offset_minutes"
    and "estimated_time r =
           (if delay \<noteq> 0 then Some (scheduled_time r + timedelta_minutes delay) else None)"
    and "actual_time r =
           (if st = ARRIVED \<or> st = LANDED \<or> st = DEPARTED
            then Some (case estimated_time r of Some e \<Rightarrow> e | None \<Rightarrow> scheduled_time r)
            else None)"
    and "1 \<le> number" and "number \<le> 9999" and "0 \<le> delay"
  using assms
proof (rule make_record_InrE, goal_cases)
  case (1 airline_name code g1 number g2 origin destination g3 ftype g4 offset_minutes g5
    scheduled st g6 delay g7 estimated gate_letter g8 gate_number g9 trm g10 aircraft g11)
  note init = 1(16) [unfolded FlightRecord_init_typed]
  from init have b: "1 \<le> number" "number \<le> 9999" "0 \<le> delay"
    by blast+
  from init have r: "r = \<lparr>flight_id = code @ ''-'' @ str_int number, flight_type = ftype,
      airline = airline_name, airline_code = upper code,
      flight_number = number, origin_airport = upper origin,
      destination_airport = upper destination, scheduled_time = scheduled,
      estimated_time = estimated,
      actual_time = (if st = ARRIVED \<or> st = LANDED \<or> st = DEPARTED
                then Some (case estimated of Some e \<Rightarrow> e | None \<Rightarrow> scheduled)
                else None), status = st, gate = Some (gate_letter # str_int gate_number),
      terminal = Some trm, aircraft_type = Some aircraft, delay_minutes = delay\<rparr>"
    by blast
  have s: "scheduled = base_time self + timedelta_minutes offset_minutes"
    using datetime_add_InrD [OF 1(7)] by simp
  have e: "estimated = (if delay \<noteq> 0 then Some (scheduled + timedelta_minutes delay) else None)"
  proof (cases "delay = 0")
    case True
    with 1(10) show ?thesis by simp
  next
    case False
    with 1(10) obtain x where "datetime_add scheduled (timedelta_minutes delay) = Inr x"
      and "estimated = Some x"
      by (auto elim!: bindE_InrE)
    with False datetime_add_InrD [of scheduled "timedelta_minutes delay" x] show ?thesis
      by simp
  qed
  show ?case
    by (rule 1(1) [of airline_name code g1 number g2 origin destination g3 st g6 delay g7
          offset_minutes])
      (simp_all add: 1(2,3,4,9) b r s e)
qed

lemma make_record_status_delay:
  assumes "make_record lib self = Inr (r, self')"
  shows "status_delay_coupling r"
  using assms
proof (rule make_record_fieldsE, goal_cases)
  case (1 airline_name code g1 number g2 origin destination g3 offset_minutes st g6 delay g7)
  have "st = CANCELLED \<Longrightarrow> delay = 0"
    using 1(4) by simp
  moreover have "st = DELAYED \<Longrightarrow> 0 < delay"
    using 1(4) randint_lower [of lib 15 300 g6 delay g7] by simp
  ultimately show ?case
    using 1(9,10) by (auto simp: status_delay_coupling_def)
qed

lemma make_record_time_presence:
  assumes "make_record lib self = Inr (r, self')"
  shows "time_presence r"
  using assms
proof (rule make_record_fieldsE, goal_cases)
  case (1 airline_name code g1 number g2 origin destination g3 offset_minutes st g6 delay g7)
  have "st = DEPARTED \<Longrightarrow> delay = 0"
    using 1(4) by simp
  with 1(9-13,16) show ?case
    by (auto simp: time_presence_def)
qed

lemma make_record_schema_invariants:
  assumes ok: "randbelow_ok lib" and "make_record lib self = Inr (r, self')"
  shows "schema_invariants r"
  using assms(2)
proof (rule make_record_fieldsE, goal_cases)
  case (1 airline_name code g1 number g2 origin destination g3 offset_minutes st g6 delay g7)
  have "2 \<le> length AIRPORTS"
    by (simp add: AIRPORTS_def)
  from sample_two [OF ok distinct_AIRPORTS this, of g2] 1(3)
  have "origin \<in> set AIRPORTS" and "destination \<in> set AIRPORTS" and "origin \<noteq> destination"
    by auto
  then have "upper origin \<noteq> upper destination" and "upper origin = origin"
    and "upper destination = destination"
    by (simp_all add: upper_AIRPORTS)
  moreover have "upper code = code"
    using choice_InrD(1) [OF 1(1)] by (simp add: upper_AIRLINES)
  ultimately show ?case
    using 1(5-8,10,14-16) by (simp add: schema_invariants_def)
qed

lemma pools_nonempty:
  "AIRLINES \<noteq> []" "AIRPORTS \<noteq> []" "TERMINALS \<noteq> []" "AIRCRAFT_TYPES \<noteq> []"
  "map fst STATUS_WEIGHTS \<noteq> []" "length (map snd STATUS_WEIGHTS) = length (map fst STATUS_WEIGHTS)"
  "2 \<le> length AIRPORTS" "STATUS_WEIGHTS \<noteq> []"
  unfolding AIRLINES_def AIRPORTS_def TERMINALS_def AIRCRAFT_TYPES_def STATUS_WEIGHTS_def
  by simp_all

lemma status_draw_total:
  "\<exists>st g6. choices lib (map fst STATUS_WEIGHTS) (map snd STATUS_WEIGHTS) 1 g5
      = Inr ([st], g6)"
  unfolding One_nat_def
  by (rule choices_one_total) (simp_all add: pools_nonempty status_weights_total)

lemma getitem_single: "getitem [x] 0 = Inr x"
  by (simp add: getitem_def)

lemma unpack2_pair: "unpack2 [a, b] = Inr (a, b)"
  by (simp add: unpack2_def)

lemma datetime_add_safe:
  assumes "base_time_safe t" and "- 720 \<le> off" and "off \<le> 720"
  shows "datetime_add t (timedelta_minutes off) = Inr (t + timedelta_minutes off)"
  using assms by (simp add: datetime_add_def base_time_safe_def timedelta_minutes_def)

lemma datetime_add_safe_delay:
  assumes "base_time_safe t" and "- 720 \<le> off" and "off \<le> 720" and "0 \<le> d" and "d \<le> 300"
  shows "datetime_add (t + timedelta_minutes off) (timedelta_minutes d)
           = Inr (t + timedelta_minutes off + timedelta_minutes d)"
  using assms by (simp add: datetime_add_def base_time_safe_def timedelta_minutes_def)

lemma make_record_total:
  assumes ok: "randbelow_ok lib" and safe: "base_time_safe (base_time self)"
  shows "\<exists>r self'. make_record lib self = Inr (r, self')"
proof -
  obtain nm code g1 where c1: "choice lib AIRLINES (rng self) = Inr ((nm, code), g1)"
    and m1: "(nm, code) \<in> set AIRLINES"
    using choice_total [OF ok pools_nonempty(1), of "rng self"] by auto
  obtain number g2 where c2: "randint lib 100 9999 g1 = Inr (number, g2)"
    using randint_total [of 100 9999 lib g1] by auto
  have n2: "100 \<le> number" "number \<le> 9999"
    using randint_lower [OF c2] randint_upper [OF ok c2] by simp_all
  from sample_two [OF ok distinct_AIRPORTS pools_nonempty(7), of g2]
  obtain origin destination g3
    where c3: "sample lib AIRPORTS 2 g2 = Inr ([origin, destination], g3)"
      and m3: "origin \<in> set AIRPORTS" "destination \<in> set AIRPORTS"
    by blast
  obtain ftype g4 where c4: "choice lib [ARRIVAL, DEPARTURE] g3 = Inr (ftype, g4)"
    using choice_total [OF ok, of "[ARRIVAL, DEPARTURE]" g3] by auto
  obtain offset_minutes g5 where c5: "randint lib (- 720) 720 g4 = Inr (offset_minutes, g5)"
    using randint_total [of "- 720" 720 lib g4] by auto
  have n5: "- 720 \<le> offset_minutes" "offset_minutes \<le> 720"
    using randint_lower [OF c5] randint_upper [OF ok c5] by simp_all
  let ?sched = "base_time self + timedelta_minutes offset_minutes"
  have cs: "datetime_add (base_time self) (timedelta_minutes offset_minutes) = Inr ?sched"
    by (rule datetime_add_safe [OF safe n5])
  obtain st g6
    where c6: "choices lib (map fst STATUS_WEIGHTS) (map snd STATUS_WEIGHTS) 1 g5
                 = Inr ([st], g6)"
    using status_draw_total [of lib g5] by blast
  let ?draw = "if st = DELAYED then randint lib 15 300 g6
          else if st = CANCELLED then Inr (0, g6)
          else if st = ARRIVED \<or> st = LANDED then choice lib [0, 0, 0, 5, 10, 15, 30] g6
          else Inr (0, g6)"
  obtain delay g7 where c7: "?draw = Inr (delay, g7)" and n7: "0 \<le> delay" "delay \<le> 300"
  proof (cases "st = DELAYED")
    case True
    obtain d g where d: "randint lib 15 300 g6 = Inr (d, g)"
      using randint_total [of 15 300 lib g6] by auto
    with True that [of d g] randint_lower [OF d] randint_upper [OF ok d] show ?thesis
      by simp
  next
    case False
    show ?thesis
    proof (cases "st = ARRIVED \<or> st = LANDED")
      case True
      obtain d g where "choice lib [0, 0, 0, 5, 10, 15, 30] g6 = Inr (d :: int, g)"
        and "d \<in> set [0, 0, 0, 5, 10, 15, 30]"
        using choice_total [OF ok, of "[0, 0, 0, 5, 10, 15, 30 :: int]" g6] by auto
      with True that [of d g] show ?thesis
        by auto
    next
      case False
      with \<open>st \<noteq> DELAYED\<close> that [of 0 g6] show ?thesis
        by simp
    qed
  qed
  let ?est = "if delay \<noteq> 0 then Some (?sched + timedelta_minutes delay) else None"
  have ce: "(if delay \<noteq> 0
          then bindE (datetime_add ?sched (timedelta_minutes delay)) (\<lambda>e. Inr (Some e))
          else Inr None) = Inr ?est"
    using datetime_add_safe_delay [OF safe n5 n7] by simp
  obtain gate_letter g8 where c8: "choice lib ''ABCDEF'' g7 = Inr (gate_letter, g8)"
    using choice_total [OF ok, of "''ABCDEF''" g7] by auto
  obtain gate_number g9 where c9: "randint lib 1 40 g8 = Inr (gate_number, g9)"
    using randint_total [of 1 40 lib g8] by auto
  obtain trm g10 where c10: "choice lib TERMINALS g9 = Inr (trm, g10)"
    using choice_total [OF ok pools_nonempty(3), of g9] by auto
  obtain aircraft g11 where c11: "choice lib AIRCRAFT_TYPES g10 = Inr (aircraft, g11)"
    using choice_total [OF ok pools_nonempty(4), of g10] by auto
  have len: "length code = 2" "length origin = 3" "length destination = 3"
    using m1 m3 by (simp_all add: upper_AIRLINES upper_AIRPORTS)
  let ?kw = "\<lparr>kw_flight_id = PyStr (code @ ''-'' @ str_int number),
             kw_flight_type = ftype,
             kw_airline = PyStr nm,
             kw_airline_code = PyStr code,
             kw_flight_number = PyInt number,
             kw_origin_airport = PyStr origin,
             kw_destination_airport = PyStr destination,
             kw_scheduled_time = ?sched,
             kw_estimated_time = ?est,
             kw_actual_time =
               (if st = ARRIVED \<or> st = LANDED \<or> st = DEPARTED
                then Some (case ?est of Some e \<Rightarrow> e | None \<Rightarrow> ?sched)
                else None),
             kw_status = st,
             kw_gate = PyStr (gate_letter # str_int gate_number),
             kw_terminal = PyStr trm,
             kw_aircraft_type = PyStr aircraft,
             kw_delay_minutes = Some (PyInt delay)\<rparr>"
  obtain r where init: "FlightRecord_init lib ?kw = Inr r"
    using len n2 n7 by (simp add: FlightRecord_init_typed)
  have "make_record lib self = Inr (r, self\<lparr>rng := g11\<rparr>)"
    unfolding make_record_def
    by (simp only: c1 c2 c3 c4 c5 cs c6 c7 ce c8 c9 c10 c11 bindE_Inr prod.case Let_def
        unpack2_pair getitem_single init)
  then show ?thesis
    by blast
qed

lemma lcg_lib_ok: "randbelow_ok lcg_lib"
  by (simp add: randbelow_ok_def lcg_lib_def)

lemma make_record_state:
  assumes "make_record lib self = Inr (r, self')"
  shows "self' = self\<lparr>rng := rng self'\<rparr>"
  using assms by (rule make_record_InrE) simp

lemma make_record_base_time:
  assumes "make_record lib self = Inr (r, self')"
  shows "base_time self' = base_time self"
  using make_record_state [OF assms] by (cases self, cases self') simp

lemma stream_loop_total:
  assumes ok: "randbelow_ok lib"
  shows "base_time_safe (base_time self)
    \<Longrightarrow> \<exists>rs self'. stream_loop lib k self = Inr (rs, self') \<and> length rs = k"
proof (induction k arbitrary: self)
  case 0
  show ?case by simp
next
  case (Suc k)
  obtain r s1 where m: "make_record lib self = Inr (r, s1)"
    using make_record_total [OF ok Suc.prems] by blast
  then have "base_time_safe (base_time s1)"
    using Suc.prems by (simp add: make_record_base_time)
  then obtain rs s2 where "stream_loop lib k s1 = Inr (rs, s2)" and "length rs = k"
    using Suc.IH by blast
  with m show ?case by simp
qed

lemma stream_loop_length:
  "stream_loop lib k self = Inr (rs, self') \<Longrightarrow> length rs = k"
  by (induction k arbitrary: self rs) (auto simp: bindE_eq_Inr_iff)

lemma stream_loop_all:
  assumes P: "\<And>s r s'. make_record lib s = Inr (r, s') \<Longrightarrow> P r"
    and run: "stream_loop lib k self = Inr (rs, self')"
  shows "\<forall>r\<in>set rs. P r"
  using run by (induction k arbitrary: self rs) (auto simp: bindE_eq_Inr_iff dest: P)

lemma stream_loop_add:
  "stream_loop lib (m + n) self =
     bindE (stream_loop lib m self) (\<lambda>(xs, s1).
     bindE (stream_loop lib n s1) (\<lambda>(ys, s2). Inr (xs @ ys, s2)))"
proof (induction m arbitrary: self)
  case 0
  show ?case
    by (cases "stream_loop lib n self") auto
next
  case (Suc m)
  show ?case
  proof (cases "make_record lib self")
    case (Inl e)
    then show ?thesis by simp
  next
    case (Inr p)
    obtain r s1 where p: "p = (r, s1)" by (cases p)
    show ?thesis
    proof (cases "stream_loop lib m s1")
      case (Inl e)
      with Inr p Suc.IH [of s1] show ?thesis by simp
    next
      case first: (Inr q)
      obtain xs s2 where q: "q = (xs, s2)" by (cases q)
      show ?thesis
        using Inr p first q Suc.IH [of s1]
        by (cases "stream_loop lib n s2") auto
    qed
  qed
qed

lemma stream_loop_next:
  "stream_loop lib it self =
     bindE (stream_next lib it self) (\<lambda>(x, self').
       case x of
         None \<Rightarrow> Inr ([], self')
       | Some (rec, it') \<Rightarrow>
           bindE (stream_loop lib it' self') (\<lambda>(rest, self''). Inr (rec # rest, self'')))"
proof (cases it)
  case 0
  then show ?thesis by (simp add: stream_next_def)
next
  case (Suc k)
  then show ?thesis
    by (cases "make_record lib self") (auto simp: stream_next_def)
qed

lemma state_after_stream_loop:
  "stream_loop lib k self = Inr (rs, self') \<Longrightarrow> state_after lib k self = Inr self'"
  by (induction k arbitrary: self rs) (auto simp: bindE_eq_Inr_iff)

lemma state_after_add:
  "state_after lib (i + j) self = bindE (state_after lib i self) (state_after lib j)"
proof (induction i arbitrary: self)
  case 0
  show ?case by simp
next
  case (Suc i)
  show ?case
  proof (cases "make_record lib self")
    case (Inl e)
    then show ?thesis by simp
  next
    case (Inr p)
    with Suc [of "snd p"] show ?thesis
      by (cases p) simp
  qed
qed

lemma stream_loop_nth:
  assumes "stream_loop lib k self = Inr (rs, self')" and "i < k"
  shows "\<exists>s s'. state_after lib i self = Inr s \<and> make_record lib s = Inr (rs ! i, s')"
  using assms
proof (induction k arbitrary: self rs i)
  case 0
  then show ?case by simp
next
  case (Suc k)
  from Suc.prems(1) obtain r s1 rest
    where m: "make_record lib self = Inr (r, s1)"
      and l: "stream_loop lib k s1 = Inr (rest, self')" and rs: "rs = r # rest"
    by (auto simp: bindE_eq_Inr_iff)
  show ?case
  proof (cases i)
    case 0
    with m rs show ?thesis by simp
  next
    case (Suc j)
    with Suc.prems(2) have "j < k" by simp
    from Suc.IH [OF l this] m rs Suc show ?thesis
      by simp
  qed
qed

lemma generate_total:
  assumes "randbelow_ok lib" and "base_time_safe (base_time self)"
  shows "\<exists>rs self'. generate lib n self = Inr (rs, self') \<and> length rs = nat n"
  using stream_loop_total [OF assms, of "nat n"] by (simp add: generate_def stream_def)

lemma generate_length:
  "generate lib n self = Inr (rs, self') \<Longrightarrow> length rs = nat n"
  by (simp add: generate_def stream_def stream_loop_length)

lemma generate_all:
  assumes "\<And>s r s'. make_record lib s = Inr (r, s') \<Longrightarrow> P r"
    and "generate lib n self = Inr (rs, self')"
  shows "\<forall>r\<in>set rs. P r"
  using stream_loop_all [of lib P "nat n" self rs self'] assms
  by (simp add: generate_def stream_def)

lemma singleton_list: "length rs = Suc 0 \<Longrightarrow> \<exists>r. rs = [r]"
  by (cases rs) auto

lemma init_without_base_time:
  "base_time (FlightDataGenerator_init lib now sd None) = now"
  by (simp add: FlightDataGenerator_init_def)

lemma init_with_base_time:
  "base_time (FlightDataGenerator_init lib now sd (Some t)) = t"
  by (simp add: FlightDataGenerator_init_def)

lemma bindE_map_cong:
  assumes "\<And>x. m = Inr x \<Longrightarrow> k' x = map_sum id f (k x)"
  shows "bindE m k' = map_sum id f (bindE m k)"
  using assms by (cases m) simp_all

lemma make_record_seed:
  "make_record lib (self\<lparr>seed := sd\<rparr>)
     = map_sum id (\<lambda>(r, s). (r, s\<lparr>seed := sd\<rparr>)) (make_record lib self)"
  unfolding make_record_def Let_def
  apply simp
  apply ((rule bindE_map_cong, (simp only: split_paired_all prod.case)?)+)
  apply simp
  done

lemma stream_loop_seed:
  "stream_loop lib k (self\<lparr>seed := sd\<rparr>)
     = map_sum id (\<lambda>(rs, s). (rs, s\<lparr>seed := sd\<rparr>)) (stream_loop lib k self)"
proof (induction k arbitrary: self)
  case 0
  show ?case by simp
next
  case (Suc k)
  show ?case
  proof (cases "make_record lib self")
    case (Inl e)
    then show ?thesis by (simp add: make_record_seed)
  next
    case (Inr p)
    obtain r s1 where p: "p = (r, s1)" by (cases p)
    from Inr p Suc [of s1] show ?thesis
      by (cases "stream_loop lib k s1") (auto simp: make_record_seed)
  qed
qed

lemma generate_reads_rng_and_base_time:
  assumes "rng self1 = rng self2" and "base_time self1 = base_time self2"
  shows "map_sum id fst (generate lib n self1) = map_sum id fst (generate lib n self2)"
proof -
  from assms have "self2 = self1\<lparr>seed := seed self2\<rparr>"
    by (cases self1, cases self2) simp
  then have "generate lib n self2
      = map_sum id (\<lambda>(rs, s). (rs, s\<lparr>seed := seed self2\<rparr>)) (generate lib n self1)"
    using stream_loop_seed [where lib = lib and k = "stream n" and self = self1 and sd = "seed self2"]
    by (simp add: generate_def)
  then show ?thesis
    by (cases "generate lib n self1") auto
qed










lemma generate_zero: "generate lib 0 self = Inr ([], self)"
  by (simp add: generate_def stream_def)


section \<open>The concrete libraries, evaluated\<close>

text \<open>
  \<open>lcg_lib\<close> keeps the contract of \<open>_randbelow\<close>, and the generator run on it can be
  evaluated step by step by rewriting.
\<close>

lemma digit_chars:
  "char_of (48 :: nat) = CHR ''0''" "char_of (49 :: nat) = CHR ''1''"
  "char_of (50 :: nat) = CHR ''2''" "char_of (51 :: nat) = CHR ''3''"
  "char_of (52 :: nat) = CHR ''4''" "char_of (53 :: nat) = CHR ''5''"
  "char_of (54 :: nat) = CHR ''6''" "char_of (55 :: nat) = CHR ''7''"
  "char_of (56 :: nat) = CHR ''8''" "char_of (57 :: nat) = CHR ''9''"
  by code_simp+

lemma sample_2_unfold:
  "sample lib xs 2 g =
     (if \<not> 2 \<le> length xs then Inl ValueError
      else (case randbelow lib (length xs) g of
        (j, g') \<Rightarrow>
          bindE (getitem xs j) (\<lambda>x.
          bindE (getitem xs (length xs - 1)) (\<lambda>y.
          (case randbelow lib (length xs - 1) g' of
            (j', g'') \<Rightarrow>
              bindE (getitem (xs[j := y]) j') (\<lambda>x'.
              bindE (getitem (xs[j := y]) (length xs - 1 - 1)) (\<lambda>y'.
              Inr ([x, x'], g''))))))))"
  by (simp add: sample_def numeral_2_eq_2 bindE_def split: prod.splits sum.splits)

lemma choices_1_unfold:
  "choices lib population weights (Suc 0) g =
     (let n = length population; cum_weights = accumulate weights in
      if length cum_weights \<noteq> n then Inl ValueError
      else if cum_weights = [] then Inl IndexError
      else (let total_w = last cum_weights in
            if total_w \<le> 0 then Inl ValueError
            else (case random lib g of
              (u, g') \<Rightarrow>
                bindE (getitem population (bisect cum_weights (u * total_w) 0 (n - 1))) (\<lambda>x.
                Inr ([x], g')))))"
  by (simp add: choices_def Let_def bindE_def split: prod.splits sum.splits)

lemma mod_Suc_Suc_0: "(n::nat) mod Suc (Suc 0) = n mod 2"
  by (simp add: numeral_2_eq_2)

lemmas init_eval = FlightRecord_init_def validate_str_def validate_optional_str_def
  validate_code_def validate_int_def errors_of_def check_length_def check_range_def
  check_ge_def uppercase_airport_def uppercase_airline_code_def Let_def

lemmas lcg_eval = mod_Suc_Suc_0 lcg_lib_def lcg_next_def choice_def randint_def randrange_def
  getitem_def sample_2_unfold choices_1_unfold accumulate_def unpack2_def bisect.simps
  make_record_def init_eval upper_def upper_char_def str_int_def str_nat.simps digit_chars
  datetime_add_def datetime_min_def datetime_max_def demo_time_def
  timedelta_minutes_def AIRLINES_def AIRPORTS_def AIRCRAFT_TYPES_def TERMINALS_def
  STATUS_WEIGHTS_def

lemma make_record_lcg_28:
  "make_record lcg_lib \<lparr>seed = sd, rng = 28, base_time = demo_time\<rparr> =
     Inr (\<lparr>flight_id = ''SQ-2450'', flight_type = ARRIVAL,
            airline = ''Singapore Airlines'', airline_code = ''SQ'',
            flight_number = 2450, origin_airport = ''FRA'',
            destination_airport = ''MIA'', scheduled_time = 63917108520000000,
            estimated_time = Some 63917125980000000, actual_time = None,
            status = DELAYED, gate = Some ''A25'', terminal = Some ''T2'',
            aircraft_type = Some ''A359'', delay_minutes = 291\<rparr>,
          \<lparr>seed = sd, rng = 19423, base_time = demo_time\<rparr>)"
  by (simp add: lcg_eval)

lemma make_record_lcg_19423:
  "make_record lcg_lib \<lparr>seed = sd, rng = 19423, base_time = demo_time\<rparr> =
     Inr (\<lparr>flight_id = ''UA-9920'', flight_type = DEPARTURE,
            airline = ''United Airlines'', airline_code = ''UA'',
            flight_number = 9920, origin_airport = ''SEA'',
            destination_airport = ''SYD'', scheduled_time = 63917137740000000,
            estimated_time = None, actual_time = Some 63917137740000000,
            status = ARRIVED, gate = Some ''F5'', terminal = Some ''T2'',
            aircraft_type = Some ''B739'', delay_minutes = 0\<rparr>,
          \<lparr>seed = sd, rng = 60853, base_time = demo_time\<rparr>)"
  by (simp add: lcg_eval)

lemma make_record_lcg_78:
  "make_record lcg_lib \<lparr>seed = sd, rng = 78, base_time = demo_time\<rparr> =
     Inr (\<lparr>flight_id = ''SQ-1752'', flight_type = ARRIVAL,
            airline = ''Singapore Airlines'', airline_code = ''SQ'',
            flight_number = 1752, origin_airport = ''MIA'',
            destination_airport = ''ICN'', scheduled_time = 63917132880000000,
            estimated_time = None, actual_time = None, status = CANCELLED,
            gate = Some ''B17'', terminal = Some ''T4'',
            aircraft_type = Some ''B737'', delay_minutes = 0\<rparr>,
          \<lparr>seed = sd, rng = 39635, base_time = demo_time\<rparr>)"
  by (simp add: lcg_eval)

lemma make_record_lcg_1:
  "make_record lcg_lib \<lparr>seed = sd, rng = 1, base_time = demo_time\<rparr> =
     Inr (\<lparr>flight_id = ''SQ-1449'', flight_type = DEPARTURE,
            airline = ''Singapore Airlines'', airline_code = ''SQ'',
            flight_number = 1449, origin_airport = ''DEN'',
            destination_airport = ''SFO'', scheduled_time = 63917097720000000,
            estimated_time = None, actual_time = Some 63917097720000000,
            status = DEPARTED, gate = Some ''F33'', terminal = Some ''T2'',
            aircraft_type = Some ''CRJ9'', delay_minutes = 0\<rparr>,
          \<lparr>seed = sd, rng = 21742, base_time = demo_time\<rparr>)"
  by (simp add: lcg_eval)

lemma make_record_lcg_78_max:
  "make_record lcg_lib \<lparr>seed = sd, rng = 78, base_time = datetime_max\<rparr> = Inl OverflowError"
  by (simp add: lcg_eval)

lemma make_record_lcg_28_later:
  "make_record lcg_lib \<lparr>seed = sd, rng = 28, base_time = demo_time + 1000000\<rparr> =
     Inr (\<lparr>flight_id = ''SQ-2450'', flight_type = ARRIVAL,
            airline = ''Singapore Airlines'', airline_code = ''SQ'',
            flight_number = 2450, origin_airport = ''FRA'',
            destination_airport = ''MIA'', scheduled_time = 63917108521000000,
            estimated_time = Some 63917125981000000, actual_time = None,
            status = DELAYED, gate = Some ''A25'', terminal = Some ''T2'',
            aircraft_type = Some ''A359'', delay_minutes = 291\<rparr>,
          \<lparr>seed = sd, rng = 19423, base_time = demo_time + 1000000\<rparr>)"
  by (simp add: lcg_eval)

lemma init_lcg:
  "FlightDataGenerator_init lcg_lib now sd bt =
     \<lparr>seed = sd, rng = nat \<bar>sd\<bar> mod 65537,
      base_time = (case bt of Some t \<Rightarrow> t | None \<Rightarrow> now)\<rparr>"
  by (simp add: FlightDataGenerator_init_def lcg_lib_def)

lemma generate_one:
  "generate lib 1 self = bindE (make_record lib self) (\<lambda>(r, s). Inr ([r], s))"
  by (cases "make_record lib self") (auto simp: generate_def stream_def)

lemma generate_two:
  "generate lib 2 self =
     bindE (make_record lib self) (\<lambda>(r1, s1).
     bindE (make_record lib s1) (\<lambda>(r2, s2). Inr ([r1, r2], s2)))"
proof (cases "make_record lib self")
  case (Inl e)
  then show ?thesis
    by (simp add: generate_def stream_def numeral_2_eq_2)
next
  case (Inr p)
  then show ?thesis
    by (cases p, cases "make_record lib (snd p)")
      (auto simp: generate_def stream_def numeral_2_eq_2)
qed
lemma base_time_safe_demo_time: "base_time_safe demo_time"
  by (simp add: base_time_safe_def demo_time_def datetime_min_def datetime_max_def
      timedelta_minutes_def)

lemma generate_lcg_28:
  "generate lcg_lib 1 (FlightDataGenerator_init lcg_lib now 28 (Some demo_time)) =
     Inr ([\<lparr>flight_id = ''SQ-2450'', flight_type = ARRIVAL,
            airline = ''Singapore Airlines'', airline_code = ''SQ'',
            flight_number = 2450, origin_airport = ''FRA'',
            destination_airport = ''MIA'', scheduled_time = 63917108520000000,
            estimated_time = Some 63917125980000000, actual_time = None,
            status = DELAYED, gate = Some ''A25'', terminal = Some ''T2'',
            aircraft_type = Some ''A359'', delay_minutes = 291\<rparr>],
          \<lparr>seed = 28, rng = 19423, base_time = demo_time\<rparr>)"
  by (simp add: generate_one init_lcg make_record_lcg_28)

lemma generate_lcg_78:
  "generate lcg_lib 1 (FlightDataGenerator_init lcg_lib now 78 (Some demo_time)) =
     Inr ([\<lparr>flight_id = ''SQ-1752'', flight_type = ARRIVAL,
            airline = ''Singapore Airlines'', airline_code = ''SQ'',
            flight_number = 1752, origin_airport = ''MIA'',
            destination_airport = ''ICN'', scheduled_time = 63917132880000000,
            estimated_time = None, actual_time = None, status = CANCELLED,
            gate = Some ''B17'', terminal = Some ''T4'',
            aircraft_type = Some ''B737'', delay_minutes = 0\<rparr>],
          \<lparr>seed = 78, rng = 39635, base_time = demo_time\<rparr>)"
  by (simp add: generate_one init_lcg make_record_lcg_78)

lemma generate_lcg_1:
  "generate lcg_lib 1 (FlightDataGenerator_init lcg_lib now 1 (Some demo_time)) =
     Inr ([\<lparr>flight_id = ''SQ-1449'', flight_type = DEPARTURE,
            airline = ''Singapore Airlines'', airline_code = ''SQ'',
            flight_number = 1449, origin_airport = ''DEN'',
            destination_airport = ''SFO'', scheduled_time = 63917097720000000,
            estimated_time = None, actual_time = Some 63917097720000000,
            status = DEPARTED, gate = Some ''F33'', terminal = Some ''T2'',
            aircraft_type = Some ''CRJ9'', delay_minutes = 0\<rparr>],
          \<lparr>seed = 1, rng = 21742, base_time = demo_time\<rparr>)"
  using make_record_lcg_1 [of 1] by (simp add: generate_one init_lcg)

lemma generate_lcg_28_two:
  "generate lcg_lib 2 \<lparr>seed = sd, rng = 28, base_time = demo_time\<rparr> =
     Inr ([\<lparr>flight_id = ''SQ-2450'', flight_type = ARRIVAL,
            airline = ''Singapore Airlines'', airline_code = ''SQ'',
            flight_number = 2450, origin_airport = ''FRA'',
            destination_airport = ''MIA'', scheduled_time = 63917108520000000,
            estimated_time = Some 63917125980000000, actual_time = None,
            status = DELAYED, gate = Some ''A25'', terminal = Some ''T2'',
            aircraft_type = Some ''A359'', delay_minutes = 291\<rparr>,
           \<lparr>flight_id = ''UA-9920'', flight_type = DEPARTURE,
            airline = ''United Airlines'', airline_code = ''UA'',
            flight_number = 9920, origin_airport = ''SEA'',
            destination_airport = ''SYD'', scheduled_time = 63917137740000000,
            estimated_time = None, actual_time = Some 63917137740000000,
            status = ARRIVED, gate = Some ''F5'', terminal = Some ''T2'',
            aircraft_type = Some ''B739'', delay_minutes = 0\<rparr>],
          \<lparr>seed = sd, rng = 60853, base_time = demo_time\<rparr>)"
  by (simp add: generate_two make_record_lcg_28 make_record_lcg_19423)

lemma generate_lcg_19423:
  "generate lcg_lib 1 \<lparr>seed = sd, rng = 19423, base_time = demo_time\<rparr> =
     Inr ([\<lparr>flight_id = ''UA-9920'', flight_type = DEPARTURE,
            airline = ''United Airlines'', airline_code = ''UA'',
            flight_number = 9920, origin_airport = ''SEA'',
            destination_airport = ''SYD'', scheduled_time = 63917137740000000,
            estimated_time = None, actual_time = Some 63917137740000000,
            status = ARRIVED, gate = Some ''F5'', terminal = Some ''T2'',
            aircraft_type = Some ''B739'', delay_minutes = 0\<rparr>],
          \<lparr>seed = sd, rng = 60853, base_time = demo_time\<rparr>)"
  by (simp add: generate_one make_record_lcg_19423)

lemma generate_lcg_78_max:
  "generate lcg_lib 1 (FlightDataGenerator_init lcg_lib now 78 (Some datetime_max))
     = Inl OverflowError"
  by (simp add: generate_one init_lcg make_record_lcg_78_max)

lemma generate_lcg_28_clock:
  "generate lcg_lib 1 (FlightDataGenerator_init lcg_lib demo_time 28 None) =
     Inr ([\<lparr>flight_id = ''SQ-2450'', flight_type = ARRIVAL,
            airline = ''Singapore Airlines'', airline_code = ''SQ'',
            flight_number = 2450, origin_airport = ''FRA'',
            destination_airport = ''MIA'', scheduled_time = 63917108520000000,
            estimated_time = Some 63917125980000000, actual_time = None,
            status = DELAYED, gate = Some ''A25'', terminal = Some ''T2'',
            aircraft_type = Some ''A359'', delay_minutes = 291\<rparr>],
          \<lparr>seed = 28, rng = 19423, base_time = demo_time\<rparr>)"
  by (simp add: generate_one init_lcg make_record_lcg_28)

lemma generate_lcg_28_clock_later:
  "generate lcg_lib 1 (FlightDataGenerator_init lcg_lib (demo_time + 1000000) 28 None) =
     Inr ([\<lparr>flight_id = ''SQ-2450'', flight_type = ARRIVAL,
            airline = ''Singapore Airlines'', airline_code = ''SQ'',
            flight_number = 2450, origin_airport = ''FRA'',
            destination_airport = ''MIA'', scheduled_time = 63917108521000000,
            estimated_time = Some 63917125981000000, actual_time = None,
            status = DELAYED, gate = Some ''A25'', terminal = Some ''T2'',
            aircraft_type = Some ''A359'', delay_minutes = 291\<rparr>],
          \<lparr>seed = 28, rng = 19423, base_time = demo_time + 1000000\<rparr>)"
  by (simp add: generate_one init_lcg make_record_lcg_28_later)

section \<open>Properties of the streaming functions\<close>

lemma write_records_eq:
  "write_records lib records fh count =
     (fh @ concat (map (\<lambda>r. record_to_json_line lib r @ [LF]) records),
      count + int (length records))"
  by (induction records arbitrary: fh count) simp_all

lemma collect_lines_eq:
  "collect_lines lib records lines = lines @ map (record_to_json_line lib) records"
  by (induction records arbitrary: lines) simp_all

lemma join_LF_concat:
  "xs \<noteq> [] \<Longrightarrow> join [LF] xs @ [LF] = concat (map (\<lambda>x. x @ [LF]) xs)"
  by (induction "[LF]" xs rule: join.induct) simp_all

lemma universal_newlines_id: "CR \<notin> set s \<Longrightarrow> universal_newlines s = s"
  by (induction s rule: universal_newlines.induct) auto

lemma split_lines_line:
  "LF \<notin> set s \<Longrightarrow> split_lines cur (s @ LF # rest) = (cur @ s @ [LF]) # split_lines [] rest"
  by (induction s arbitrary: cur) auto

lemma split_lines_concat:
  assumes "\<forall>x\<in>set xs. LF \<notin> set x"
  shows "split_lines [] (concat (map (\<lambda>x. x @ [LF]) xs)) = map (\<lambda>x. x @ [LF]) xs"
  using assms by (induction xs) (simp_all add: split_lines_line)

lemma file_lines_concat:
  assumes "\<forall>x\<in>set xs. LF \<notin> set x \<and> CR \<notin> set x"
  shows "file_lines (concat (map (\<lambda>x. x @ [LF]) xs)) = map (\<lambda>x. x @ [LF]) xs"
proof -
  have "LF \<noteq> CR"
    by (simp add: LF_def CR_def)
  with assms have "CR \<notin> set (concat (map (\<lambda>x. x @ [LF]) xs))"
    by auto
  then show ?thesis
    using assms by (simp add: file_lines_def universal_newlines_id split_lines_concat)
qed

lemma is_space_LF: "is_space LF"
  by (simp add: is_space_def LF_def)

lemma strip_line:
  assumes "json_line_ok s"
  shows "strip (s @ [LF]) = s"
proof -
  from assms obtain c cs where s: "s = c # cs" and c: "\<not> is_space c"
    by (cases s) (auto simp: json_line_ok_def)
  from assms have l: "\<not> is_space (last s)" and ne: "s \<noteq> []"
    by (auto simp: json_line_ok_def)
  have "dropWhile is_space (s @ [LF]) = s @ [LF]"
    using s c by simp
  moreover have "dropWhile is_space (rev (s @ [LF])) = rev s"
    using l ne by (cases "rev s") (auto simp: is_space_LF last_rev [symmetric] hd_rev)
  ultimately show ?thesis
    by (simp add: strip_def)
qed

lemma count_loop_lines:
  assumes "\<forall>x\<in>set xs. json_line_ok x"
  shows "count_loop (map (\<lambda>x. x @ [LF]) xs) count = count + int (length xs)"
  using assms
proof (induction xs arbitrary: count)
  case Nil
  show ?case by simp
next
  case (Cons x xs)
  then have "strip (x @ [LF]) = x" and "x \<noteq> []"
    by (simp_all add: strip_line json_line_ok_def)
  with Cons show ?case
    by simp
qed

lemma read_lines_lines:
  assumes "\<forall>r\<in>set rs. json_line_ok (f r) \<and> json_loads lib (f r) = Inr (g r)"
  shows "read_lines lib (map (\<lambda>r. f r @ [LF]) rs) acc = Inr (acc @ map g rs)"
  using assms
proof (induction rs arbitrary: acc)
  case Nil
  show ?case by simp
next
  case (Cons r rs)
  then have "strip (f r @ [LF]) = f r" and "f r \<noteq> []" and "json_loads lib (f r) = Inr (g r)"
    by (simp_all add: strip_line json_line_ok_def)
  with Cons show ?case
    by simp
qed

lemma join_last:
  "xs \<noteq> [] \<Longrightarrow> last xs \<noteq> [] \<Longrightarrow> join sep xs \<noteq> [] \<and> last (join sep xs) = last (last xs)"
  by (induction sep xs rule: join.induct) auto

lemma demo_decodes: "\<forall>r\<in>set demo_records. decodes_to_record demo_json_lib r"
  by (simp add: demo_records_def decodes_to_record_def json_line_ok_def demo_json_lib_def
      demo_dump_def quoted_def demo_loads_def parse_value_def is_digit_def is_space_def
      LF_def CR_def DQ_def dict_get_def str_int_def str_nat.simps digit_chars Let_def)

lemma file_lines_records:
  assumes "\<forall>r\<in>set rs. LF \<notin> set (f r) \<and> CR \<notin> set (f r)"
  shows "file_lines (concat (map (\<lambda>r. f r @ [LF]) rs)) = map (\<lambda>r. f r @ [LF]) rs"
  using file_lines_concat [of "map f rs"] assms by (simp add: comp_def)

lemma count_loop_records:
  assumes "\<forall>r\<in>set rs. json_line_ok (f r)"
  shows "count_loop (map (\<lambda>r. f r @ [LF]) rs) count = count + int (length rs)"
  using count_loop_lines [of "map f rs" count] assms by (simp add: comp_def)

lemma stream_to_file_eq:
  "stream_to_file lib records path fs =
     (int (length records),
      fs(path \<mapsto> concat (map (\<lambda>r. record_to_json_line lib r @ [LF]) records)))"
  by (simp add: stream_to_file_def write_records_eq)

section \<open>The claims\<close>

text \<open>
  C2 (invariants of generated records).  With a random source that keeps the library's
  contract, every record that \<open>generate(n)\<close> returns and every record that the iterator
  of \<open>stream(n)\<close> yields has different origin and destination airports, upper-case
  airline and airport codes, a flight number between 1 and 9999 and a non-negative
  delay; and with a base time from which the additions stay in the range of the library
  type, \<open>generate(n)\<close> does return \<open>n\<close> such records.
\<close>

theorem generate_invariants:
  assumes "randbelow_ok lib"
  shows "(\<forall>rs self'. generate lib n self = Inr (rs, self') \<longrightarrow>
            (\<forall>r\<in>set rs.
                 origin_airport r \<noteq> destination_airport r
                 \<and> upper (airline_code r) = airline_code r
                 \<and> upper (origin_airport r) = origin_airport r
                 \<and> upper (destination_airport r) = destination_airport r
                 \<and> 1 \<le> flight_number r \<and> flight_number r \<le> 9999
                 \<and> 0 \<le> delay_minutes r))
         \<and> (\<forall>it r it' self'. stream_next lib it self = Inr (Some (r, it'), self') \<longrightarrow>
                 origin_airport r \<noteq> destination_airport r
                 \<and> upper (airline_code r) = airline_code r
                 \<and> upper (origin_airport r) = origin_airport r
                 \<and> upper (destination_airport r) = destination_airport r
                 \<and> 1 \<le> flight_number r \<and> flight_number r \<le> 9999
                 \<and> 0 \<le> delay_minutes r)
         \<and> (base_time_safe (base_time self) \<longrightarrow>
              (\<exists>rs self'. generate lib n self = Inr (rs, self') \<and> length rs = nat n
                 \<and> (\<forall>r\<in>set rs.
                       origin_airport r \<noteq> destination_airport r
                       \<and> upper (airline_code r) = airline_code r
                       \<and> upper (origin_airport r) = origin_airport r
                       \<and> upper (destination_airport r) = destination_airport r
                       \<and> 1 \<le> flight_number r \<and> flight_number r \<le> 9999
                       \<and> 0 \<le> delay_minutes r)))"
proof -
  have all: "\<forall>r\<in>set rs. schema_invariants r" if "generate lib n self = Inr (rs, self')"
    for rs self'
    using make_record_schema_invariants [OF assms] that by (rule generate_all)
  have one: "schema_invariants r" if "stream_next lib it self = Inr (Some (r, it'), self')"
    for it r it' self'
  proof -
    from that obtain k where "make_record lib self = Inr (r, self')"
      by (cases it) (auto simp: stream_next_def bindE_eq_Inr_iff)
    then show ?thesis
      by (rule make_record_schema_invariants [OF assms])
  qed
  have ex: "\<exists>rs self'. generate lib n self = Inr (rs, self') \<and> length rs = nat n
              \<and> (\<forall>r\<in>set rs. schema_invariants r)"
    if "base_time_safe (base_time self)"
    using generate_total [OF assms that, of n] all by blast
  from all one ex show ?thesis
    unfolding schema_invariants_def by blast
qed

theorem generate_invariants_witness:
  "randbelow_ok lcg_lib \<and> base_time_safe demo_time
   \<and> (\<exists>r self'. generate lcg_lib 1 (FlightDataGenerator_init lcg_lib 0 28 (Some demo_time))
                   = Inr ([r], self')
         \<and> flight_id r = ''SQ-2450''
         \<and> origin_airport r = ''FRA'' \<and> destination_airport r = ''MIA''
         \<and> origin_airport r \<noteq> destination_airport r
         \<and> upper (airline_code r) = airline_code r
         \<and> upper (origin_airport r) = origin_airport r
         \<and> upper (destination_airport r) = destination_airport r
         \<and> 1 \<le> flight_number r \<and> flight_number r \<le> 9999
         \<and> 0 \<le> delay_minutes r)"
proof -
  let ?g = "FlightDataGenerator_init lcg_lib 0 28 (Some demo_time)"
  have safe: "base_time_safe (base_time ?g)"
    by (simp add: init_with_base_time base_time_safe_demo_time)
  from generate_invariants [OF lcg_lib_ok, of 1 ?g] safe
  obtain rs self' where run: "generate lcg_lib 1 ?g = Inr (rs, self')"
    and inv: "\<forall>r\<in>set rs.
                 origin_airport r \<noteq> destination_airport r
                 \<and> upper (airline_code r) = airline_code r
                 \<and> upper (origin_airport r) = origin_airport r
                 \<and> upper (destination_airport r) = destination_airport r
                 \<and> 1 \<le> flight_number r \<and> flight_number r \<le> 9999
                 \<and> 0 \<le> delay_minutes r"
    by blast
  from run obtain r where "rs = [r]" and "flight_id r = ''SQ-2450''"
    and "origin_airport r = ''FRA''" and "destination_airport r = ''MIA''"
    by (auto simp: generate_lcg_28)
  with run inv lcg_lib_ok base_time_safe_demo_time show ?thesis
    by auto
qed

text \<open>
  C3 (status and delay).  In every record that \<open>generate(n)\<close> returns and in every
  record that the iterator of \<open>stream(n)\<close> yields, a cancelled flight has delay 0 and a
  delayed flight has a positive delay; and with a random source that keeps the library's
  contract and a base time from which the additions stay in the range of the library
  type, \<open>generate(n)\<close> does return such records.
\<close>

theorem generate_status_delay:
  "(\<forall>rs self'. generate lib n self = Inr (rs, self') \<longrightarrow>
      (\<forall>r\<in>set rs.
           (status r = CANCELLED \<longrightarrow> delay_minutes r = 0)
           \<and> (status r = DELAYED \<longrightarrow> 0 < delay_minutes r)))
   \<and> (\<forall>it r it' self'. stream_next lib it self = Inr (Some (r, it'), self') \<longrightarrow>
           (status r = CANCELLED \<longrightarrow> delay_minutes r = 0)
           \<and> (status r = DELAYED \<longrightarrow> 0 < delay_minutes r))
   \<and> (randbelow_ok lib \<and> base_time_safe (base_time self) \<longrightarrow>
        (\<exists>rs self'. generate lib n self = Inr (rs, self')
           \<and> (\<forall>r\<in>set rs.
                 (status r = CANCELLED \<longrightarrow> delay_minutes r = 0)
                 \<and> (status r = DELAYED \<longrightarrow> 0 < delay_minutes r))))"
proof -
  have all: "\<forall>r\<in>set rs. status_delay_coupling r" if "generate lib n self = Inr (rs, self')"
    for rs self'
    using make_record_status_delay that by (rule generate_all)
  have one: "status_delay_coupling r"
    if "stream_next lib it self = Inr (Some (r, it'), self')" for it r it' self'
  proof -
    from that obtain k where "make_record lib self = Inr (r, self')"
      by (cases it) (auto simp: stream_next_def bindE_eq_Inr_iff)
    then show ?thesis
      by (rule make_record_status_delay)
  qed
  have ex: "\<exists>rs self'. generate lib n self = Inr (rs, self')
              \<and> (\<forall>r\<in>set rs. status_delay_coupling r)"
    if "randbelow_ok lib" and "base_time_safe (base_time self)"
    using generate_total [OF that, of n] all by blast
  from all one ex show ?thesis
    unfolding status_delay_coupling_def by blast
qed

theorem generate_status_delay_witness:
  "randbelow_ok lcg_lib \<and> base_time_safe demo_time
   \<and> (\<exists>r self'. generate lcg_lib 1 (FlightDataGenerator_init lcg_lib 0 28 (Some demo_time))
                   = Inr ([r], self')
         \<and> status r = DELAYED \<and> delay_minutes r = 291 \<and> 0 < delay_minutes r)
   \<and> (\<exists>r self'. generate lcg_lib 1 (FlightDataGenerator_init lcg_lib 0 78 (Some demo_time))
                   = Inr ([r], self')
         \<and> status r = CANCELLED \<and> delay_minutes r = 0)"
proof -
  let ?g = "FlightDataGenerator_init lcg_lib 0 28 (Some demo_time)"
  let ?h = "FlightDataGenerator_init lcg_lib 0 78 (Some demo_time)"
  let ?P = "\<lambda>r. (status r = CANCELLED \<longrightarrow> delay_minutes r = 0)
                 \<and> (status r = DELAYED \<longrightarrow> 0 < delay_minutes r)"
  have safe: "base_time_safe (base_time ?g)" "base_time_safe (base_time ?h)"
    by (simp_all add: init_with_base_time base_time_safe_demo_time)
  from generate_status_delay [of lcg_lib 1 ?g] lcg_lib_ok safe(1)
  obtain rs self' where run: "generate lcg_lib 1 ?g = Inr (rs, self')"
    and inv: "\<forall>r\<in>set rs. ?P r"
    by blast
  from run obtain r where r: "rs = [r]" "status r = DELAYED" "delay_minutes r = 291"
    by (auto simp: generate_lcg_28)
  from generate_status_delay [of lcg_lib 1 ?h] lcg_lib_ok safe(2)
  obtain rs' self'' where run': "generate lcg_lib 1 ?h = Inr (rs', self'')"
    and inv': "\<forall>r\<in>set rs'. ?P r"
    by blast
  from run' obtain r' where r': "rs' = [r']" "status r' = CANCELLED"
    by (auto simp: generate_lcg_78)
  from run r inv have "\<exists>r self'. generate lcg_lib 1 ?g = Inr ([r], self')
         \<and> status r = DELAYED \<and> delay_minutes r = 291 \<and> 0 < delay_minutes r"
    by auto
  moreover from run' r' inv' have "\<exists>r self'. generate lcg_lib 1 ?h = Inr ([r], self')
         \<and> status r = CANCELLED \<and> delay_minutes r = 0"
    by auto
  ultimately show ?thesis
    using lcg_lib_ok base_time_safe_demo_time by blast
qed

text \<open>
  C10 (presence of the times).  In every record that \<open>generate(n)\<close> returns and in every
  record that the iterator of \<open>stream(n)\<close> yields, \<open>estimated_time\<close> is present exactly
  when the delay is positive, \<open>actual_time\<close> is present exactly when the status is
  arrived, landed or departed, and a departed flight has delay 0, no estimated time and
  an actual time equal to the scheduled time; and with a random source that keeps the
  library's contract and a base time from which the additions stay in the range of the
  library type, \<open>generate(n)\<close> does return such records.
\<close>

theorem generate_time_presence:
  "(\<forall>rs self'. generate lib n self = Inr (rs, self') \<longrightarrow>
      (\<forall>r\<in>set rs.
           (estimated_time r \<noteq> None \<longleftrightarrow> 0 < delay_minutes r)
           \<and> (actual_time r \<noteq> None
                \<longleftrightarrow> status r = ARRIVED \<or> status r = LANDED \<or> status r = DEPARTED)
           \<and> (status r = DEPARTED \<longrightarrow>
                 delay_minutes r = 0 \<and> estimated_time r = None
                 \<and> actual_time r = Some (scheduled_time r))))
   \<and> (\<forall>it r it' self'. stream_next lib it self = Inr (Some (r, it'), self') \<longrightarrow>
           (estimated_time r \<noteq> None \<longleftrightarrow> 0 < delay_minutes r)
           \<and> (actual_time r \<noteq> None
                \<longleftrightarrow> status r = ARRIVED \<or> status r = LANDED \<or> status r = DEPARTED)
           \<and> (status r = DEPARTED \<longrightarrow>
                 delay_minutes r = 0 \<and> estimated_time r = None
                 \<and> actual_time r = Some (scheduled_time r)))
   \<and> (randbelow_ok lib \<and> base_time_safe (base_time self) \<longrightarrow>
        (\<exists>rs self'. generate lib n self = Inr (rs, self')
           \<and> (\<forall>r\<in>set rs.
                 (estimated_time r \<noteq> None \<longleftrightarrow> 0 < delay_minutes r)
                 \<and> (actual_time r \<noteq> None
                      \<longleftrightarrow> status r = ARRIVED \<or> status r = LANDED \<or> status r = DEPARTED)
                 \<and> (status r = DEPARTED \<longrightarrow>
                       delay_minutes r = 0 \<and> estimated_time r = None
                       \<and> actual_time r = Some (scheduled_time r)))))"
proof -
  have all: "\<forall>r\<in>set rs. time_presence r" if "generate lib n self = Inr (rs, self')"
    for rs self'
    using make_record_time_presence that by (rule generate_all)
  have one: "time_presence r"
    if "stream_next lib it self = Inr (Some (r, it'), self')" for it r it' self'
  proof -
    from that obtain k where "make_record lib self = Inr (r, self')"
      by (cases it) (auto simp: stream_next_def bindE_eq_Inr_iff)
    then show ?thesis
      by (rule make_record_time_presence)
  qed
  have ex: "\<exists>rs self'. generate lib n self = Inr (rs, self')
              \<and> (\<forall>r\<in>set rs. time_presence r)"
    if "randbelow_ok lib" and "base_time_safe (base_time self)"
    using generate_total [OF that, of n] all by blast
  have unf: "time_presence r \<longleftrightarrow>
           (estimated_time r \<noteq> None \<longleftrightarrow> 0 < delay_minutes r)
           \<and> (actual_time r \<noteq> None
                \<longleftrightarrow> status r = ARRIVED \<or> status r = LANDED \<or> status r = DEPARTED)
           \<and> (status r = DEPARTED \<longrightarrow>
                 delay_minutes r = 0 \<and> estimated_time r = None
                 \<and> actual_time r = Some (scheduled_time r))" for r
    by (simp add: time_presence_def)
  from all one ex show ?thesis
    unfolding unf by blast
qed

theorem generate_time_presence_witness:
  "randbelow_ok lcg_lib \<and> base_time_safe demo_time
   \<and> (\<exists>r self'. generate lcg_lib 1 (FlightDataGenerator_init lcg_lib 0 1 (Some demo_time))
                   = Inr ([r], self')
         \<and> status r = DEPARTED \<and> delay_minutes r = 0 \<and> estimated_time r = None
         \<and> actual_time r = Some (scheduled_time r))
   \<and> (\<exists>r self'. generate lcg_lib 1 (FlightDataGenerator_init lcg_lib 0 28 (Some demo_time))
                   = Inr ([r], self')
         \<and> 0 < delay_minutes r \<and> estimated_time r \<noteq> None \<and> actual_time r = None)"
proof -
  let ?g = "FlightDataGenerator_init lcg_lib 0 1 (Some demo_time)"
  let ?h = "FlightDataGenerator_init lcg_lib 0 28 (Some demo_time)"
  let ?P = "\<lambda>r. (estimated_time r \<noteq> None \<longleftrightarrow> 0 < delay_minutes r)
                 \<and> (actual_time r \<noteq> None
                      \<longleftrightarrow> status r = ARRIVED \<or> status r = LANDED \<or> status r = DEPARTED)
                 \<and> (status r = DEPARTED \<longrightarrow>
                       delay_minutes r = 0 \<and> estimated_time r = None
                       \<and> actual_time r = Some (scheduled_time r))"
  have safe: "base_time_safe (base_time ?g)" "base_time_safe (base_time ?h)"
    by (simp_all add: init_with_base_time base_time_safe_demo_time)
  from generate_time_presence [of lcg_lib 1 ?g] lcg_lib_ok safe(1)
  obtain rs self' where run: "generate lcg_lib 1 ?g = Inr (rs, self')"
    and inv: "\<forall>r\<in>set rs. ?P r"
    by blast
  from run obtain r where r: "rs = [r]" "status r = DEPARTED"
    by (auto simp: generate_lcg_1)
  from generate_time_presence [of lcg_lib 1 ?h] lcg_lib_ok safe(2)
  obtain rs' self'' where run': "generate lcg_lib 1 ?h = Inr (rs', self'')"
    and inv': "\<forall>r\<in>set rs'. ?P r"
    by blast
  from run' obtain r' where r': "rs' = [r']" "status r' = DELAYED" "estimated_time r' \<noteq> None"
    by (auto simp: generate_lcg_28)
  from run r inv
  have "\<exists>r self'. generate lcg_lib 1 ?g = Inr ([r], self')
         \<and> status r = DEPARTED \<and> delay_minutes r = 0 \<and> estimated_time r = None
         \<and> actual_time r = Some (scheduled_time r)"
    by auto
  moreover from run' r' inv'
  have "\<exists>r self'. generate lcg_lib 1 ?h = Inr ([r], self')
         \<and> 0 < delay_minutes r \<and> estimated_time r \<noteq> None \<and> actual_time r = None"
    by auto
  ultimately show ?thesis
    using lcg_lib_ok base_time_safe_demo_time by blast
qed

text \<open>
  C4 (count), as the specification states it: for every generator object and every
  \<open>n \<ge> 0\<close>, \<open>generate(n)\<close> returns exactly \<open>n\<close> records.  This fails for a base time
  close to the end of the range of \<open>datetime\<close>: with the seed 78 the first record is
  scheduled 188 minutes after the base time, and for the base time \<open>datetime.max\<close> the
  addition raises \<open>OverflowError\<close>, so \<open>generate(1)\<close> returns no list.
\<close>

theorem generate_count_overflow:
  "randbelow_ok lcg_lib \<and> (0::int) \<le> 1
   \<and> generate lcg_lib 1 (FlightDataGenerator_init lcg_lib demo_time 78 (Some datetime_max))
       = Inl OverflowError"
  using lcg_lib_ok by (simp add: generate_lcg_78_max)

text \<open>
  C4 (count), amended.  \<open>generate(0)\<close> returns the empty list and leaves the generator
  as it was.  With a random source that keeps the library's contract and a base time
  that lies at least 720 minutes after \<open>datetime.min\<close> and at least 1020 minutes
  before \<open>datetime.max\<close>, \<open>generate(n)\<close> for \<open>n \<ge> 0\<close> returns a list of exactly \<open>n\<close>
  records.
\<close>

theorem generate_count:
  "generate lib 0 self = Inr ([], self)
   \<and> (randbelow_ok lib \<and> 0 \<le> n \<and> base_time_safe (base_time self) \<longrightarrow>
        (\<exists>rs self'. generate lib n self = Inr (rs, self') \<and> int (length rs) = n))"
proof -
  have zero: "generate lib 0 self = Inr ([], self)"
    by (simp add: generate_def stream_def)
  have "\<exists>rs self'. generate lib n self = Inr (rs, self') \<and> int (length rs) = n"
    if "randbelow_ok lib" and "0 \<le> n" and "base_time_safe (base_time self)"
    using generate_total [OF that(1,3), of n] that(2) by auto
  with zero show ?thesis
    by blast
qed

theorem generate_count_witness:
  "randbelow_ok lcg_lib \<and> (0::int) \<le> 1 \<and> (0::int) \<le> 5 \<and> base_time_safe demo_time
   \<and> (\<exists>rs self'. generate lcg_lib 5 (FlightDataGenerator_init lcg_lib 0 42 (Some demo_time))
                     = Inr (rs, self')
          \<and> length rs = 5)
   \<and> (\<exists>r self'. generate lcg_lib 1 (FlightDataGenerator_init lcg_lib 0 28 (Some demo_time))
                    = Inr ([r], self')
          \<and> flight_id r = ''SQ-2450'')
   \<and> generate lcg_lib 0 (FlightDataGenerator_init lcg_lib 0 42 (Some demo_time))
        = Inr ([], FlightDataGenerator_init lcg_lib 0 42 (Some demo_time))"
proof -
  let ?g = "FlightDataGenerator_init lcg_lib 0 42 (Some demo_time)"
  let ?h = "FlightDataGenerator_init lcg_lib 0 28 (Some demo_time)"
  have safe: "base_time_safe (base_time ?g)" "base_time_safe (base_time ?h)"
    by (simp_all add: init_with_base_time base_time_safe_demo_time)
  have five: "\<exists>rs self'. generate lcg_lib 5 ?g = Inr (rs, self') \<and> length rs = 5"
    using generate_count [of lcg_lib ?g 5] lcg_lib_ok safe(1) by auto
  have zero: "generate lcg_lib 0 ?g = Inr ([], ?g)"
    using generate_count [of lcg_lib ?g 0] by blast
  have one: "\<exists>r self'. generate lcg_lib 1 ?h = Inr ([r], self') \<and> flight_id r = ''SQ-2450''"
    using generate_count [of lcg_lib ?h 1] lcg_lib_ok safe(2)
    by (auto simp: generate_lcg_28)
  from five one zero lcg_lib_ok base_time_safe_demo_time show ?thesis
    by simp
qed

text \<open>
  C1 (determinism), as the specification states it: for every seed and every
  \<open>base_time\<close>, two generator objects built with the same seed and \<open>base_time\<close> return
  the same records.  This fails for the \<open>base_time\<close> \<open>None\<close>, which is the default: each
  object then takes its base time from the clock, and two objects built with the seed 28
  one second apart return records with different times.
\<close>

theorem generate_clock_dependent:
  "generate lcg_lib 1 (FlightDataGenerator_init lcg_lib demo_time 28 None)
     \<noteq> generate lcg_lib 1 (FlightDataGenerator_init lcg_lib (demo_time + 1000000) 28 None)"
  by (simp add: generate_lcg_28_clock generate_lcg_28_clock_later)

text \<open>
  C1 (determinism), amended.  For every seed, every \<open>base_time\<close> other than \<open>None\<close> and
  every \<open>n\<close>, two generator objects built with the same seed and \<open>base_time\<close>, at
  whatever moments \<open>now1\<close> and \<open>now2\<close> the clock shows, return the same from
  \<open>generate(n)\<close>; an object built without \<open>base_time\<close> behaves as one built with the
  reading of the clock as \<open>base_time\<close>.  Generation reads the random state and the base
  time of the object and nothing else: two objects that agree on both return the same
  records.  With a random source that keeps the library's contract and a base time from
  which the additions stay in the range of the library type, the result is a list of
  \<open>n\<close> records, and record number \<open>i\<close> is what \<open>_make_record\<close> returns in the state that
  \<open>i\<close> earlier calls of it have left.
\<close>

theorem generate_deterministic:
  "generate lib n (FlightDataGenerator_init lib now1 sd (Some t))
     = generate lib n (FlightDataGenerator_init lib now2 sd (Some t))
   \<and> generate lib n (FlightDataGenerator_init lib now1 sd None)
     = generate lib n (FlightDataGenerator_init lib now2 sd (Some now1))
   \<and> (rng self1 = rng self2 \<and> base_time self1 = base_time self2 \<longrightarrow>
        map_sum id fst (generate lib n self1) = map_sum id fst (generate lib n self2))
   \<and> (randbelow_ok lib \<and> base_time_safe t \<longrightarrow>
        (\<exists>rs self'.
           generate lib n (FlightDataGenerator_init lib now1 sd (Some t)) = Inr (rs, self')
           \<and> length rs = nat n
           \<and> state_after lib (nat n) (FlightDataGenerator_init lib now1 sd (Some t))
               = Inr self'
           \<and> (\<forall>i<nat n. \<exists>s s'.
                 state_after lib i (FlightDataGenerator_init lib now1 sd (Some t)) = Inr s
                 \<and> make_record lib s = Inr (rs ! i, s'))))"
proof -
  let ?g = "FlightDataGenerator_init lib now1 sd (Some t)"
  have a: "generate lib n ?g = generate lib n (FlightDataGenerator_init lib now2 sd (Some t))"
    by (simp add: FlightDataGenerator_init_def)
  have b: "generate lib n (FlightDataGenerator_init lib now1 sd None)
     = generate lib n (FlightDataGenerator_init lib now2 sd (Some now1))"
    by (simp add: FlightDataGenerator_init_def)
  have c: "map_sum id fst (generate lib n self1) = map_sum id fst (generate lib n self2)"
    if "rng self1 = rng self2" and "base_time self1 = base_time self2"
    using that by (rule generate_reads_rng_and_base_time)
  have d: "\<exists>rs self'. generate lib n ?g = Inr (rs, self') \<and> length rs = nat n
           \<and> state_after lib (nat n) ?g = Inr self'
           \<and> (\<forall>i<nat n. \<exists>s s'. state_after lib i ?g = Inr s
                 \<and> make_record lib s = Inr (rs ! i, s'))"
    if ok: "randbelow_ok lib" and safe: "base_time_safe t"
  proof -
    from safe have "base_time_safe (base_time ?g)"
      by (simp add: init_with_base_time)
    from generate_total [OF ok this, of n]
    obtain rs self' where run: "generate lib n ?g = Inr (rs, self')" and len: "length rs = nat n"
      by blast
    from run have loop: "stream_loop lib (nat n) ?g = Inr (rs, self')"
      by (simp add: generate_def stream_def)
    have "state_after lib (nat n) ?g = Inr self'"
      using loop by (rule state_after_stream_loop)
    moreover have "\<forall>i<nat n. \<exists>s s'. state_after lib i ?g = Inr s
                 \<and> make_record lib s = Inr (rs ! i, s')"
      using stream_loop_nth [OF loop] by blast
    ultimately show ?thesis
      using run len by blast
  qed
  from a b c d show ?thesis
    by blast
qed

theorem generate_deterministic_witness:
  "randbelow_ok lcg_lib \<and> base_time_safe demo_time
   \<and> generate lcg_lib 2 (FlightDataGenerator_init lcg_lib 0 28 (Some demo_time))
      = generate lcg_lib 2 (FlightDataGenerator_init lcg_lib 7 28 (Some demo_time))
   \<and> map_sum id fst (generate lcg_lib 2 \<lparr>seed = 5, rng = 28, base_time = demo_time\<rparr>)
      = map_sum id fst (generate lcg_lib 2 \<lparr>seed = 6, rng = 28, base_time = demo_time\<rparr>)
   \<and> (\<exists>r1 r2 self'.
         generate lcg_lib 2 (FlightDataGenerator_init lcg_lib 0 28 (Some demo_time))
           = Inr ([r1, r2], self')
         \<and> flight_id r1 = ''SQ-2450'' \<and> flight_id r2 = ''UA-9920''
         \<and> scheduled_time r1 = 63917108520000000
         \<and> rng self' = 60853
         \<and> state_after lcg_lib 2 (FlightDataGenerator_init lcg_lib 0 28 (Some demo_time))
             = Inr self')"
proof -
  let ?g = "FlightDataGenerator_init lcg_lib 0 28 (Some demo_time)"
  let ?a = "\<lparr>seed = 5, rng = 28 :: nat, base_time = demo_time\<rparr>"
  let ?b = "\<lparr>seed = 6, rng = 28 :: nat, base_time = demo_time\<rparr>"
  note inst = generate_deterministic [of lcg_lib 2 0 28 demo_time 7 ?a ?b]
  from inst have same: "generate lcg_lib 2 ?g
      = generate lcg_lib 2 (FlightDataGenerator_init lcg_lib 7 28 (Some demo_time))"
    by blast
  from inst have reads: "map_sum id fst (generate lcg_lib 2 ?a)
      = map_sum id fst (generate lcg_lib 2 ?b)"
    by simp
  from inst lcg_lib_ok base_time_safe_demo_time
  obtain rs self' where run: "generate lcg_lib 2 ?g = Inr (rs, self')"
    and st: "state_after lcg_lib (nat 2) ?g = Inr self'"
    by blast
  have g: "?g = \<lparr>seed = 28, rng = 28, base_time = demo_time\<rparr>"
    by (simp add: init_lcg)
  from run obtain r1 r2 where "rs = [r1, r2]" and "flight_id r1 = ''SQ-2450''"
    and "flight_id r2 = ''UA-9920''" and "scheduled_time r1 = 63917108520000000"
    and "rng self' = 60853"
    unfolding g generate_lcg_28_two by auto
  with run st same reads lcg_lib_ok base_time_safe_demo_time show ?thesis
    by auto
qed

text \<open>
  C8 (no restart), as the specification states it: \<open>generate(m)\<close> followed by
  \<open>generate(n)\<close> on one object returns the records of \<open>generate(m + n)\<close> on a fresh
  object built with the same seed and \<open>base_time\<close>.  This fails for the \<open>base_time\<close>
  \<open>None\<close>: the fresh object reads the clock again.  With the seed 28, \<open>m = 1\<close> and
  \<open>n = 0\<close>, and the fresh object built one second later, the single record differs in
  its times.
\<close>

theorem generate_fresh_clock:
  "generate lcg_lib 1 (FlightDataGenerator_init lcg_lib demo_time 28 None) =
     Inr ([\<lparr>flight_id = ''SQ-2450'', flight_type = ARRIVAL,
            airline = ''Singapore Airlines'', airline_code = ''SQ'',
            flight_number = 2450, origin_airport = ''FRA'',
            destination_airport = ''MIA'', scheduled_time = 63917108520000000,
            estimated_time = Some 63917125980000000, actual_time = None,
            status = DELAYED, gate = Some ''A25'', terminal = Some ''T2'',
            aircraft_type = Some ''A359'', delay_minutes = 291\<rparr>],
          \<lparr>seed = 28, rng = 19423, base_time = demo_time\<rparr>)
   \<and> generate lcg_lib 0 \<lparr>seed = 28, rng = 19423, base_time = demo_time\<rparr>
       = Inr ([], \<lparr>seed = 28, rng = 19423, base_time = demo_time\<rparr>)
   \<and> generate lcg_lib (1 + 0) (FlightDataGenerator_init lcg_lib (demo_time + 1000000) 28 None) =
     Inr ([\<lparr>flight_id = ''SQ-2450'', flight_type = ARRIVAL,
            airline = ''Singapore Airlines'', airline_code = ''SQ'',
            flight_number = 2450, origin_airport = ''FRA'',
            destination_airport = ''MIA'', scheduled_time = 63917108521000000,
            estimated_time = Some 63917125981000000, actual_time = None,
            status = DELAYED, gate = Some ''A25'', terminal = Some ''T2'',
            aircraft_type = Some ''A359'', delay_minutes = 291\<rparr>],
          \<lparr>seed = 28, rng = 19423, base_time = demo_time + 1000000\<rparr>)"
  by (simp add: generate_lcg_28_clock generate_lcg_28_clock_later generate_zero)

text \<open>
  C8 (no restart), amended.  For a \<open>base_time\<close> other than \<open>None\<close> and \<open>m, n \<ge> 0\<close>,
  \<open>generate(m + n)\<close> on a fresh object built with the same seed and \<open>base_time\<close> is
  \<open>generate(m)\<close> followed by \<open>generate(n)\<close> on one object, errors included.  With a
  random source that keeps the library's contract and a base time from which the
  additions stay in the range of the library type, the first call returns \<open>m\<close> records,
  the second \<open>n\<close>, and together they are the records of the single call; the second call
  starts in the state that \<open>m\<close> calls of \<open>_make_record\<close> have left, so that its record
  number \<open>j\<close> is record number \<open>m + j\<close> of the object and not a replay of record \<open>j\<close>.
\<close>

theorem generate_continues:
  assumes "0 \<le> m" and "0 \<le> n"
  shows "generate lib (m + n) (FlightDataGenerator_init lib now2 sd (Some t))
           = bindE (generate lib m (FlightDataGenerator_init lib now1 sd (Some t)))
               (\<lambda>(xs, self1). bindE (generate lib n self1)
               (\<lambda>(ys, self2). Inr (xs @ ys, self2)))
         \<and> (randbelow_ok lib \<and> base_time_safe t \<longrightarrow>
              (\<exists>xs ys self1 self2.
                 generate lib m (FlightDataGenerator_init lib now1 sd (Some t)) = Inr (xs, self1)
                 \<and> generate lib n self1 = Inr (ys, self2)
                 \<and> generate lib (m + n) (FlightDataGenerator_init lib now2 sd (Some t))
                     = Inr (xs @ ys, self2)
                 \<and> int (length xs) = m \<and> int (length ys) = n
                 \<and> state_after lib (nat m) (FlightDataGenerator_init lib now2 sd (Some t))
                     = Inr self1
                 \<and> (\<forall>j<nat n. \<exists>s s'.
                       state_after lib (nat m + j)
                         (FlightDataGenerator_init lib now2 sd (Some t)) = Inr s
                       \<and> make_record lib s = Inr (ys ! j, s'))))"
proof -
  let ?g = "FlightDataGenerator_init lib now1 sd (Some t)"
  have same: "FlightDataGenerator_init lib now2 sd (Some t) = ?g"
    by (simp add: FlightDataGenerator_init_def)
  have split: "nat (m + n) = nat m + nat n"
    using assms by (simp add: nat_add_distrib)
  have eq: "generate lib (m + n) ?g
           = bindE (generate lib m ?g)
               (\<lambda>(xs, self1). bindE (generate lib n self1)
               (\<lambda>(ys, self2). Inr (xs @ ys, self2)))"
    by (simp add: generate_def stream_def split stream_loop_add)
  have ex: "\<exists>xs ys self1 self2.
                 generate lib m ?g = Inr (xs, self1)
                 \<and> generate lib n self1 = Inr (ys, self2)
                 \<and> generate lib (m + n) ?g = Inr (xs @ ys, self2)
                 \<and> int (length xs) = m \<and> int (length ys) = n
                 \<and> state_after lib (nat m) ?g = Inr self1
                 \<and> (\<forall>j<nat n. \<exists>s s'.
                       state_after lib (nat m + j) ?g = Inr s
                       \<and> make_record lib s = Inr (ys ! j, s'))"
    if ok: "randbelow_ok lib" and safe: "base_time_safe t"
  proof -
    from safe have s0: "base_time_safe (base_time ?g)"
      by (simp add: init_with_base_time)
    obtain xs self1 where first: "generate lib m ?g = Inr (xs, self1)" "length xs = nat m"
      using generate_total [OF ok s0] by blast
    then have loop1: "stream_loop lib (nat m) ?g = Inr (xs, self1)"
      by (simp add: generate_def stream_def)
    have st1: "state_after lib (nat m) ?g = Inr self1"
      using loop1 by (rule state_after_stream_loop)
    have "base_time self1 = base_time ?g"
    proof -
      have "base_time s' = base_time s" if "stream_loop lib k s = Inr (rs, s')" for k s rs s'
        using that
        by (induction k arbitrary: s rs)
          (auto simp: bindE_eq_Inr_iff dest: make_record_base_time)
      from this [OF loop1] show ?thesis .
    qed
    with s0 have s1: "base_time_safe (base_time self1)"
      by simp
    obtain ys self2 where second: "generate lib n self1 = Inr (ys, self2)" "length ys = nat n"
      using generate_total [OF ok s1] by blast
    then have loop2: "stream_loop lib (nat n) self1 = Inr (ys, self2)"
      by (simp add: generate_def stream_def)
    have nth: "\<forall>j<nat n. \<exists>s s'. state_after lib (nat m + j) ?g = Inr s
                       \<and> make_record lib s = Inr (ys ! j, s')"
      using stream_loop_nth [OF loop2] st1 by (simp add: state_after_add)
    have "generate lib (m + n) ?g = Inr (xs @ ys, self2)"
      using eq first(1) second(1) by simp
    with first second st1 nth assms show ?thesis
      by auto
  qed
  from eq ex show ?thesis
    unfolding same by blast
qed

theorem generate_continues_witness:
  "(0::int) \<le> 1 \<and> randbelow_ok lcg_lib \<and> base_time_safe demo_time
   \<and> (\<exists>x y self1 self2.
         generate lcg_lib 1 (FlightDataGenerator_init lcg_lib 0 28 (Some demo_time))
           = Inr ([x], self1)
         \<and> generate lcg_lib 1 self1 = Inr ([y], self2)
         \<and> generate lcg_lib (1 + 1) (FlightDataGenerator_init lcg_lib 7 28 (Some demo_time))
             = Inr ([x, y], self2)
         \<and> flight_id x = ''SQ-2450'' \<and> flight_id y = ''UA-9920'' \<and> x \<noteq> y
         \<and> rng self1 = 19423 \<and> rng self2 = 60853)"
proof -
  let ?g = "FlightDataGenerator_init lcg_lib 0 28 (Some demo_time)"
  let ?h = "FlightDataGenerator_init lcg_lib 7 28 (Some demo_time)"
  from generate_continues [of 1 1 lcg_lib 7 28 demo_time 0] lcg_lib_ok base_time_safe_demo_time
  obtain xs ys self1 self2 where first: "generate lcg_lib 1 ?g = Inr (xs, self1)"
    and second: "generate lcg_lib 1 self1 = Inr (ys, self2)"
    and both: "generate lcg_lib (1 + 1) ?h = Inr (xs @ ys, self2)"
    by auto
  from first obtain x where x: "xs = [x]" "flight_id x = ''SQ-2450''"
    and s1: "self1 = \<lparr>seed = 28, rng = 19423, base_time = demo_time\<rparr>"
    by (auto simp: generate_lcg_28)
  from second obtain y where y: "ys = [y]" "flight_id y = ''UA-9920''" and s2: "rng self2 = 60853"
    unfolding s1 generate_lcg_19423 by auto
  from x y have "x \<noteq> y"
    by auto
  with first second both x y s1 s2 lcg_lib_ok base_time_safe_demo_time show ?thesis
    by auto
qed




text \<open>
  C6 (\<open>records_to_ndjson\<close>).  For the empty sequence the result is the empty string.  For
  a non-empty sequence it is the lines of the records joined by a newline, followed by one
  newline; equivalently every line is followed by exactly one newline, and when the last
  line is a JSON line the text before the final newline does not itself end in a newline.
\<close>

theorem records_to_ndjson_joins:
  "records_to_ndjson lib [] = []
   \<and> (records \<noteq> [] \<longrightarrow>
        records_to_ndjson lib records
          = join [LF] (map (record_to_json_line lib) records) @ [LF])
   \<and> records_to_ndjson lib records
        = concat (map (\<lambda>r. record_to_json_line lib r @ [LF]) records)
   \<and> (records \<noteq> [] \<and> json_line_ok (record_to_json_line lib (last records)) \<longrightarrow>
        (\<exists>body. records_to_ndjson lib records = body @ [LF] \<and> body \<noteq> [] \<and> last body \<noteq> LF))"
proof -
  let ?lines = "map (record_to_json_line lib) records"
  have a: "records_to_ndjson lib [] = []"
    by (simp add: records_to_ndjson_def)
  have b: "records_to_ndjson lib records = join [LF] ?lines @ [LF]" if "records \<noteq> []"
    using that by (simp add: records_to_ndjson_def collect_lines_eq)
  have c: "records_to_ndjson lib records
        = concat (map (\<lambda>r. record_to_json_line lib r @ [LF]) records)"
  proof (cases "records = []")
    case True
    then show ?thesis by (simp add: a)
  next
    case False
    then have "?lines \<noteq> []" by simp
    from join_LF_concat [OF this] b [OF False] show ?thesis
      by (simp add: comp_def)
  qed
  have d: "\<exists>body. records_to_ndjson lib records = body @ [LF] \<and> body \<noteq> [] \<and> last body \<noteq> LF"
    if ne: "records \<noteq> []" and ok: "json_line_ok (record_to_json_line lib (last records))"
  proof -
    from ne have l: "last ?lines = record_to_json_line lib (last records)"
      by (simp add: last_map)
    with ok have "last ?lines \<noteq> []" and "last (last ?lines) \<noteq> LF"
      using is_space_LF by (auto simp: json_line_ok_def)
    with join_last [of ?lines "[LF]"] ne
    have "join [LF] ?lines \<noteq> []" and "last (join [LF] ?lines) \<noteq> LF"
      by auto
    with b [OF ne] show ?thesis
      by blast
  qed
  from a b c d show ?thesis
    by blast
qed

theorem records_to_ndjson_joins_witness:
  "demo_records \<noteq> [] \<and> json_line_ok (record_to_json_line demo_json_lib (last demo_records))
   \<and> records_to_ndjson demo_json_lib demo_records
       = demo_dump (demo_records ! 0) @ [LF] @ demo_dump (demo_records ! 1) @ [LF]
   \<and> (\<exists>body. records_to_ndjson demo_json_lib demo_records = body @ [LF]
          \<and> body \<noteq> [] \<and> last body \<noteq> LF)"
proof -
  have ne: "demo_records \<noteq> []"
    by (simp add: demo_records_def)
  have "last demo_records \<in> set demo_records"
    using ne by simp
  with demo_decodes have ok: "json_line_ok (record_to_json_line demo_json_lib (last demo_records))"
    by (simp add: decodes_to_record_def record_to_json_line_def)
  note inst = records_to_ndjson_joins [of demo_json_lib demo_records]
  from inst ne have "records_to_ndjson demo_json_lib demo_records
      = join [LF] (map (record_to_json_line demo_json_lib) demo_records) @ [LF]"
    by blast
  then have eq: "records_to_ndjson demo_json_lib demo_records
       = demo_dump (demo_records ! 0) @ [LF] @ demo_dump (demo_records ! 1) @ [LF]"
    by (simp add: demo_records_def record_to_json_line_def demo_json_lib_def)
  from inst ne ok have "\<exists>body. records_to_ndjson demo_json_lib demo_records = body @ [LF]
          \<and> body \<noteq> [] \<and> last body \<noteq> LF"
    by blast
  with ne ok eq show ?thesis
    by blast
qed

text \<open>
  C7 (\<open>stream_to_file\<close> and \<open>count_lines\<close>).  \<open>stream_to_file\<close> returns the number of
  records and leaves at the path a file that holds the line of each record followed by a
  newline, in order; for no records the file is empty and the result is 0.  When the
  encoder produces JSON lines, the file read back has exactly these lines and
  \<open>count_lines\<close> returns the same number.
\<close>

theorem stream_to_file_counts:
  "fst (stream_to_file lib records path fs) = int (length records)
   \<and> snd (stream_to_file lib records path fs) path
       = Some (concat (map (\<lambda>r. record_to_json_line lib r @ [LF]) records))
   \<and> stream_to_file lib [] path fs = (0, fs(path \<mapsto> []))
   \<and> ((\<forall>r\<in>set records. json_line_ok (model_dump_json lib r)) \<longrightarrow>
         file_lines (concat (map (\<lambda>r. record_to_json_line lib r @ [LF]) records))
           = map (\<lambda>r. record_to_json_line lib r @ [LF]) records
         \<and> count_lines path (snd (stream_to_file lib records path fs))
           = Inr (fst (stream_to_file lib records path fs)))"
proof -
  have "file_lines (concat (map (\<lambda>r. record_to_json_line lib r @ [LF]) records))
           = map (\<lambda>r. record_to_json_line lib r @ [LF]) records
         \<and> count_lines path (snd (stream_to_file lib records path fs))
           = Inr (fst (stream_to_file lib records path fs))"
    if ok: "\<forall>r\<in>set records. json_line_ok (model_dump_json lib r)"
  proof -
    from ok have ok': "\<forall>r\<in>set records. json_line_ok (record_to_json_line lib r)"
      by (simp add: record_to_json_line_def)
    then have "\<forall>r\<in>set records. LF \<notin> set (record_to_json_line lib r)
        \<and> CR \<notin> set (record_to_json_line lib r)"
      by (simp add: json_line_ok_def)
    from file_lines_records [OF this]
    have fl: "file_lines (concat (map (\<lambda>r. record_to_json_line lib r @ [LF]) records))
      = map (\<lambda>r. record_to_json_line lib r @ [LF]) records" .
    have "count_loop (map (\<lambda>r. record_to_json_line lib r @ [LF]) records) 0
      = int (length records)"
      using count_loop_records [OF ok', of 0] by simp
    with fl show ?thesis
      by (simp add: stream_to_file_eq count_lines_def)
  qed
  then show ?thesis
    by (simp add: stream_to_file_eq)
qed

theorem stream_to_file_counts_witness:
  "json_line_ok (model_dump_json demo_json_lib (demo_records ! 0))
   \<and> json_line_ok (model_dump_json demo_json_lib (demo_records ! 1))
   \<and> fst (stream_to_file demo_json_lib demo_records ''out/flights.ndjson'' Map.empty) = 2
   \<and> count_lines ''out/flights.ndjson''
        (snd (stream_to_file demo_json_lib demo_records ''out/flights.ndjson'' Map.empty))
       = Inr 2
   \<and> count_lines ''out/flights.ndjson''
        (snd (stream_to_file demo_json_lib [] ''out/flights.ndjson'' Map.empty))
       = Inr 0"
proof -
  have ok: "\<forall>r\<in>set demo_records. json_line_ok (model_dump_json demo_json_lib r)"
    using demo_decodes by (simp add: decodes_to_record_def)
  note full = stream_to_file_counts [of demo_json_lib demo_records "''out/flights.ndjson''" Map.empty]
  from full have "fst (stream_to_file demo_json_lib demo_records ''out/flights.ndjson'' Map.empty)
      = int (length demo_records)"
    by blast
  moreover have "length demo_records = 2"
    by (simp add: demo_records_def)
  ultimately have n: "fst (stream_to_file demo_json_lib demo_records ''out/flights.ndjson'' Map.empty) = 2"
    by simp
  from full ok
  have "count_lines ''out/flights.ndjson''
        (snd (stream_to_file demo_json_lib demo_records ''out/flights.ndjson'' Map.empty))
       = Inr (fst (stream_to_file demo_json_lib demo_records ''out/flights.ndjson'' Map.empty))"
    by blast
  with n have c: "count_lines ''out/flights.ndjson''
        (snd (stream_to_file demo_json_lib demo_records ''out/flights.ndjson'' Map.empty))
       = Inr 2"
    by simp
  note empty = stream_to_file_counts [of demo_json_lib "[]" "''out/flights.ndjson''" Map.empty]
  have triv: "\<forall>r\<in>set []. json_line_ok (model_dump_json demo_json_lib r)"
    by simp
  from empty have e1: "fst (stream_to_file demo_json_lib [] ''out/flights.ndjson'' Map.empty)
      = int (length ([] :: FlightRecord list))"
    by blast
  from empty triv have e2: "count_lines ''out/flights.ndjson''
        (snd (stream_to_file demo_json_lib [] ''out/flights.ndjson'' Map.empty))
       = Inr (fst (stream_to_file demo_json_lib [] ''out/flights.ndjson'' Map.empty))"
    by blast
  from e1 e2 have "count_lines ''out/flights.ndjson''
        (snd (stream_to_file demo_json_lib [] ''out/flights.ndjson'' Map.empty))
       = Inr 0"
    by simp
  moreover have "json_line_ok (model_dump_json demo_json_lib (demo_records ! 0))"
    and "json_line_ok (model_dump_json demo_json_lib (demo_records ! 1))"
    using ok by (simp_all add: demo_records_def)
  ultimately show ?thesis
    using n c by blast
qed

end
